theory Spec2Isabelle
  imports Main "HOL-Library.AList"
begin

section \<open>Python values used by the proxy\<close>

text \<open>
  A Python \<open>dict\<close> with string keys keeps insertion order, and an assignment to an
  existing key keeps the key's position: an association list with distinct keys, read
  with \<open>map_of\<close> and written with \<open>AList.update\<close>.
\<close>

type_synonym 'v dict = "(string \<times> 'v) list"

abbreviation dict_get :: "'v dict \<Rightarrow> string \<Rightarrow> 'v option" where
  "dict_get d k \<equiv> map_of d k"

abbreviation dict_set :: "string \<Rightarrow> 'v \<Rightarrow> 'v dict \<Rightarrow> 'v dict" where
  "dict_set k v d \<equiv> AList.update k v d"

abbreviation dict_has :: "'v dict \<Rightarrow> string \<Rightarrow> bool" where
  "dict_has d k \<equiv> (map_of d k \<noteq> None)"

text \<open>
  A JSON value as Python's \<open>json\<close> module delivers it: \<open>None\<close>, \<open>bool\<close>, \<open>int\<close>,
  \<open>str\<close>, \<open>list\<close> and \<open>dict\<close>. Numbers are integers (floating point is not
  modelled); characters are code points below 256.
\<close>

datatype json = JNull | JBool bool | JInt int | JStr string
  | JArr "json list" | JObj "(string \<times> json) list"

text \<open>Truthiness, as \<open>if x:\<close> and \<open>not x\<close> test it.\<close>

fun py_truthy :: "json \<Rightarrow> bool" where
  "py_truthy JNull = False"
| "py_truthy (JBool b) = b"
| "py_truthy (JInt i) = (i \<noteq> 0)"
| "py_truthy (JStr s) = (s \<noteq> [])"
| "py_truthy (JArr xs) = (xs \<noteq> [])"
| "py_truthy (JObj kvs) = (kvs \<noteq> [])"

text \<open>\<open>str(x)\<close> and \<open>repr(x)\<close>: decimal integers, quoted and escaped strings inside containers.\<close>

definition digit_char :: "nat \<Rightarrow> char" where
  "digit_char d = ''0123456789'' ! d"

fun str_nat :: "nat \<Rightarrow> string" where
  "str_nat n = (if n < 10 then [digit_char n] else str_nat (n div 10) @ [digit_char (n mod 10)])"

definition str_int :: "int \<Rightarrow> string" where
  "str_int i = (if i < 0 then CHR ''-'' # str_nat (nat (- i)) else str_nat (nat i))"

definition hex_char :: "nat \<Rightarrow> char" where
  "hex_char d = ''0123456789abcdef'' ! d"

definition is_printable :: "char \<Rightarrow> bool" where
  "is_printable c =
     (let n = (of_char c :: nat) in (32 \<le> n \<and> n < 127) \<or> (161 \<le> n \<and> n \<noteq> 173))"

definition repr_char :: "char \<Rightarrow> char \<Rightarrow> string" where
  "repr_char quote c =
     (if c = quote \<or> c = CHR 0x5C then [CHR 0x5C, c]
      else if c = CHR 0x09 then [CHR 0x5C, CHR ''t'']
      else if c = CHR 0x0A then [CHR 0x5C, CHR ''n'']
      else if c = CHR 0x0D then [CHR 0x5C, CHR ''r'']
      else if is_printable c then [c]
      else [CHR 0x5C, CHR ''x'', hex_char (of_char c div 16), hex_char (of_char c mod 16)])"

definition repr_str :: "string \<Rightarrow> string" where
  "repr_str s =
     (let quote = (if CHR 0x27 \<in> set s \<and> CHR 0x22 \<notin> set s then CHR 0x22 else CHR 0x27)
      in quote # concat (map (repr_char quote) s) @ [quote])"

fun join :: "string \<Rightarrow> string list \<Rightarrow> string" where
  "join sep [] = []"
| "join sep [x] = x"
| "join sep (x # y # ys) = x @ sep @ join sep (y # ys)"

fun py_repr :: "json \<Rightarrow> string" where
  "py_repr JNull = ''None''"
| "py_repr (JBool b) = (if b then ''True'' else ''False'')"
| "py_repr (JInt i) = str_int i"
| "py_repr (JStr s) = repr_str s"
| "py_repr (JArr xs) = ''['' @ join '', '' (map py_repr xs) @ '']''"
| "py_repr (JObj kvs) =
     ''{'' @ join '', '' (map (\<lambda>(k, v). repr_str k @ '': '' @ py_repr v) kvs) @ ''}''"

definition py_str :: "json \<Rightarrow> string" where
  "py_str v = (case v of JStr s \<Rightarrow> s | _ \<Rightarrow> py_repr v)"

text \<open>
  \<open>x == y\<close> on JSON values: \<open>bool\<close> is a subclass of \<open>int\<close> (\<open>True == 1\<close>), lists
  compare elementwise and dicts compare as sets of items.
\<close>

fun py_num :: "json \<Rightarrow> int option" where
  "py_num (JBool b) = Some (if b then 1 else 0)"
| "py_num (JInt i) = Some i"
| "py_num _ = None"

fun py_eq :: "json \<Rightarrow> json \<Rightarrow> bool" where
  "py_eq JNull b = (b = JNull)"
| "py_eq (JBool x) b = (py_num b = Some (if x then 1 else 0))"
| "py_eq (JInt i) b = (py_num b = Some i)"
| "py_eq (JStr s) b = (b = JStr s)"
| "py_eq (JArr xs) b = (case b of JArr ys \<Rightarrow> list_all2 py_eq xs ys | _ \<Rightarrow> False)"
| "py_eq (JObj kvs) b =
     (case b of
        JObj kws \<Rightarrow> length kvs = length kws
          \<and> (\<forall>(k, v) \<in> set kvs. case map_of kws k of Some w \<Rightarrow> py_eq v w | None \<Rightarrow> False)
      | _ \<Rightarrow> False)"

text \<open>\<open>s.strip()\<close> and \<open>s.lower()\<close>.\<close>

definition is_space :: "char \<Rightarrow> bool" where
  "is_space c = ((of_char c :: nat) \<in> {9, 10, 11, 12, 13, 28, 29, 30, 31, 32, 133, 160})"

definition strip :: "string \<Rightarrow> string" where
  "strip s = rev (dropWhile is_space (rev (dropWhile is_space s)))"

definition lower_char :: "char \<Rightarrow> char" where
  "lower_char c =
     (let n = (of_char c :: nat) in if 65 \<le> n \<and> n \<le> 90 then char_of (n + 32) else c)"

definition lower :: "string \<Rightarrow> string" where
  "lower s = map lower_char s"

definition startswith :: "string \<Rightarrow> string \<Rightarrow> bool" where
  "startswith s pre = (take (length pre) s = pre)"

text \<open>The exceptions the proxy raises or lets through.\<close>

datatype py_error =
    RuntimeError string
  | ValueError string
  | TypeError
  | KeyError
  | AttributeError
  | JSONDecodeError
  | BrokenPipeError
  | ValidationError
  | HTTPException nat string
  | Unmodelled string

section \<open>Child Transport and Provider Supervisor (mcp\_manager.py, \<open>MCPServer\<close>)\<close>

datatype MCPServerStatus = STOPPED | STARTING | RUNNING | FAILED

fun status_value :: "MCPServerStatus \<Rightarrow> string" where
  "status_value STOPPED = ''stopped''"
| "status_value STARTING = ''starting''"
| "status_value RUNNING = ''running''"
| "status_value FAILED = ''failed''"

text \<open>
  \<open>MCPServerConfig\<close>. The dataclass does not validate its fields and \<open>add_server\<close> fills
  them from a JSON body, so \<open>command\<close>, \<open>env\<close> and \<open>transport\<close> hold JSON values. The
  manager reads \<open>enabled\<close> and \<open>supports_obo\<close> only through their truth value, which is
  what the record keeps.
\<close>

record MCPServerConfig =
  name :: string
  command :: json
  env :: json
  transport :: json
  enabled :: bool
  supports_obo :: bool

text \<open>
  A line of the child's standard output is either the text of a JSON value (\<open>Doc\<close>, what
  \<open>json.loads\<close> returns for it) or any other text (\<open>Raw\<close>), for which \<open>json.loads\<close> raises
  unless it is blank. \<open>readline\<close> at the end of the stream returns the empty string.
\<close>

datatype line = Raw string | Doc json

text \<open>
  The child process as the proxy observes it: \<open>alive\<close> is \<open>poll() is None\<close>, \<open>stdin\<close> the
  objects written so far (oldest first), \<open>stdout\<close> the lines not yet read. The child may
  exit between two operations of the proxy; within one call its liveness is read once.
\<close>

record child =
  pid :: nat
  alive :: bool
  stdin :: "json list"
  stdout :: "line list"
  stderr :: string

record MCPServer =
  config :: MCPServerConfig
  process :: "child option"
  status :: MCPServerStatus
  last_error :: "string option"

definition readline :: "line list \<Rightarrow> line \<times> line list" where
  "readline out = (case out of [] \<Rightarrow> (Raw [], []) | l # rest \<Rightarrow> (l, rest))"

text \<open>\<open>str(x) if x is not None else None\<close>, on the result of \<open>d.get("id")\<close>.\<close>

definition normalize_id :: "json option \<Rightarrow> string option" where
  "normalize_id v = (case v of None \<Rightarrow> None | Some JNull \<Rightarrow> None | Some x \<Rightarrow> Some (py_str x))"

text \<open>
  The read loop of \<open>send_request\<close>, \<open>for attempt in range(max_attempts)\<close>, with the number
  of attempts left, the request id and the unread lines; it returns the unread lines left.
\<close>

fun read_loop :: "nat \<Rightarrow> json option \<Rightarrow> line list \<Rightarrow> (py_error + json) \<times> line list" where
  "read_loop 0 request_id out =
     (Inl (RuntimeError ''Failed to get matching response after 10 attempts''), out)"
| "read_loop (Suc attempts) request_id out =
     (case readline out of
        (Raw response_str, rest) \<Rightarrow>
          if strip response_str = [] then
            (Inl (RuntimeError ''Empty response from MCP server''), rest)
          else (Inl JSONDecodeError, rest)
      | (Doc (JObj response), rest) \<Rightarrow>
          if normalize_id request_id = normalize_id (dict_get response ''id'')
          then (Inr (JObj response), rest)
          else read_loop attempts request_id rest
      | (Doc _, rest) \<Rightarrow> (Inl AttributeError, rest))"

definition max_attempts :: nat where
  "max_attempts = 10"

definition send_request :: "json dict \<Rightarrow> MCPServer \<Rightarrow> (py_error + json) \<times> MCPServer" where
  "send_request request srv =
     (case process srv of
        None \<Rightarrow>
          (Inl (RuntimeError (''MCP server '' @ name (config srv) @ '' is not running'')), srv)
      | Some p \<Rightarrow>
          if status srv \<noteq> RUNNING then
            (Inl (RuntimeError (''MCP server '' @ name (config srv) @ '' is not running'')), srv)
          else if \<not> alive p then
            (Inl BrokenPipeError,
             srv\<lparr>status := FAILED, last_error := Some (''Process died: '' @ stderr p)\<rparr>)
          else
            (case read_loop max_attempts (dict_get request ''id'') (stdout p) of
               (result, rest) \<Rightarrow>
                 (result,
                  srv\<lparr>process := Some (p\<lparr>stdin := stdin p @ [JObj request], stdout := rest\<rparr>)\<rparr>)))"

text \<open>
  Launching the child (\<open>subprocess.Popen\<close> with the merged environment, then one second of
  sleep) is the environment's answer: the launch raises, or there is a child, whose
  \<open>alive\<close> field says whether it is still running after the sleep.
\<close>

datatype spawn_result = SpawnRaises string | Spawned child

definition init_request :: "json dict" where
  "init_request =
     [(''jsonrpc'', JStr ''2.0''), (''id'', JInt 0), (''method'', JStr ''initialize''),
      (''params'', JObj
         [(''protocolVersion'', JStr ''2024-11-05''), (''capabilities'', JObj []),
          (''clientInfo'', JObj [(''name'', JStr ''mcp-proxy''), (''version'', JStr ''1.0.0'')])])]"

definition start :: "(MCPServerConfig \<Rightarrow> spawn_result) \<Rightarrow> MCPServer \<Rightarrow> MCPServer" where
  "start spawn srv =
     (if status srv = RUNNING then srv
      else case spawn (config srv) of
             SpawnRaises msg \<Rightarrow> srv\<lparr>status := FAILED, last_error := Some msg\<rparr>
           | Spawned p \<Rightarrow>
               if alive p then
                 snd (send_request init_request (srv\<lparr>process := Some p, status := RUNNING\<rparr>))
               else
                 srv\<lparr>process := Some p, status := FAILED,
                     last_error := Some (''Process exited immediately: '' @ stderr p)\<rparr>)"

definition stop :: "MCPServer \<Rightarrow> MCPServer" where
  "stop srv =
     (case process srv of
        None \<Rightarrow> srv
      | Some p \<Rightarrow>
          if alive p then srv\<lparr>process := Some (p\<lparr>alive := False\<rparr>), status := STOPPED\<rparr>
          else srv)"

definition new_server :: "MCPServerConfig \<Rightarrow> MCPServer" where
  "new_server cfg = \<lparr>config = cfg, process = None, status = STOPPED, last_error = None\<rparr>"

section \<open>Provider Registry and manager (mcp\_manager.py, \<open>MCPManager\<close>)\<close>

text \<open>
  The key-value store as the Redis client shows it: commands raise while the store is
  not reachable (\<open>up\<close> is false); a stored value is a byte string, which
  \<open>decode('utf-8')\<close> turns into text or rejects.
\<close>

datatype redis_bytes = Text string | Undecodable

record redis =
  up :: bool
  kv :: "string \<rightharpoonup> redis_bytes"

record MCPManager =
  servers :: "MCPServer dict"
  redis_client :: "redis option"

definition REDIS_MCP_ENABLED_PREFIX :: string where
  "REDIS_MCP_ENABLED_PREFIX = ''mcp:server:enabled:''"

text \<open>\<open>os.getenv(key, default)\<close> over the process environment.\<close>

definition getenv_or :: "(string \<rightharpoonup> string) \<Rightarrow> string \<Rightarrow> string \<Rightarrow> string" where
  "getenv_or getenv key dflt = (case getenv key of None \<Rightarrow> dflt | Some v \<Rightarrow> v)"



text \<open>
  \<open>MCPServerConfig(name=..., command=..., env=...)\<close> with the dataclass defaults
  \<open>transport="stdio"\<close>, \<open>enabled=True\<close>.
\<close>

definition builtin :: "string \<Rightarrow> string list \<Rightarrow> json dict \<Rightarrow> bool \<Rightarrow> string \<times> MCPServer" where
  "builtin n cmd overlay obo =
     (n, new_server \<lparr>name = n, command = JArr (map JStr cmd), env = JObj overlay,
           transport = JStr ''stdio'', enabled = True, supports_obo = obo\<rparr>)"









text \<open>
  \<open>_load_enabled_states_from_redis\<close>: the loop over the registry's names. A command that
  raises, or a value that does not decode, ends the loop in the \<open>except\<close> clause and
  keeps the flags set so far.
\<close>

fun load_enabled_states :: "redis \<Rightarrow> string list \<Rightarrow> MCPServer dict \<Rightarrow> MCPServer dict" where
  "load_enabled_states r [] svs = svs"
| "load_enabled_states r (server_name # names) svs =
     (if \<not> up r then svs
      else case kv r (REDIS_MCP_ENABLED_PREFIX @ server_name) of
             None \<Rightarrow> load_enabled_states r names svs
           | Some Undecodable \<Rightarrow> svs
           | Some (Text v) \<Rightarrow>
               load_enabled_states r names
                 (case dict_get svs server_name of
                    None \<Rightarrow> svs
                  | Some srv \<Rightarrow>
                      dict_set server_name
                        (srv\<lparr>config := (config srv)\<lparr>enabled := (lower v = ''true'')\<rparr>\<rparr>) svs))"



definition save_enabled_state_to_redis :: "string \<Rightarrow> bool \<Rightarrow> MCPManager \<Rightarrow> bool \<times> MCPManager" where
  "save_enabled_state_to_redis server_name en m =
     (case redis_client m of
        None \<Rightarrow> (False, m)
      | Some r \<Rightarrow>
          if up r then
            (True, m\<lparr>redis_client := Some (r\<lparr>kv := (kv r)
                (REDIS_MCP_ENABLED_PREFIX @ server_name \<mapsto> Text (lower (py_str (JBool en))))\<rparr>)\<rparr>)
          else (False, m))"

definition start_all :: "(MCPServerConfig \<Rightarrow> spawn_result) \<Rightarrow> MCPManager \<Rightarrow> MCPManager" where
  "start_all spawn m =
     m\<lparr>servers := map (\<lambda>(n, srv). (n, if enabled (config srv) then start spawn srv else srv))
                      (servers m)\<rparr>"

definition stop_all :: "MCPManager \<Rightarrow> MCPManager" where
  "stop_all m = m\<lparr>servers := map (\<lambda>(n, srv). (n, stop srv)) (servers m)\<rparr>"

text \<open>
  The injection block of \<open>route_request\<close>. \<open>x in d\<close>, \<open>d[k]\<close> and \<open>d[k] = v\<close> on a value
  that is not a dict raise \<open>TypeError\<close> (on a string or a list as well, since the key is
  a string); \<open>None\<close> is replaced for \<open>arguments\<close> and \<open>meta\<close>, not for \<open>params\<close>.
\<close>

definition inject_user_token :: "string \<Rightarrow> json dict \<Rightarrow> py_error + json dict" where
  "inject_user_token user_token request =
     (let request1 = (if \<not> dict_has request ''params''
                      then dict_set ''params'' (JObj []) request else request)
      in case dict_get request1 ''params'' of
           Some (JObj params) \<Rightarrow>
             (let params1 =
                (if \<not> dict_has params ''arguments'' \<or> dict_get params ''arguments'' = Some JNull
                 then dict_set ''arguments'' (JObj []) params else params)
              in case dict_get params1 ''arguments'' of
                   Some (JObj arguments) \<Rightarrow>
                     (let arguments1 =
                        (if \<not> dict_has arguments ''meta'' \<or> dict_get arguments ''meta'' = Some JNull
                         then dict_set ''meta'' (JObj []) arguments else arguments)
                      in case dict_get arguments1 ''meta'' of
                           Some (JObj meta) \<Rightarrow>
                             Inr (dict_set ''params''
                               (JObj (dict_set ''arguments''
                                  (JObj (dict_set ''meta''
                                     (JObj (dict_set ''userAccessToken'' (JStr user_token) meta))
                                     arguments1))
                                  params1))
                               request1)
                         | _ \<Rightarrow> Inl TypeError)
                 | _ \<Rightarrow> Inl TypeError)
         | _ \<Rightarrow> Inl TypeError)"

text \<open>The request as \<open>route_request\<close> hands it to \<open>send_request\<close>.\<close>

definition prepare_request :: "json dict \<Rightarrow> string option \<Rightarrow> py_error + json dict" where
  "prepare_request request user_token =
     (case user_token of
        Some t \<Rightarrow>
          if t \<noteq> [] \<and> dict_get request ''method'' = Some (JStr ''tools/call'')
          then inject_user_token t request
          else Inr request
      | None \<Rightarrow> Inr request)"

definition route_request ::
  "string \<Rightarrow> json dict \<Rightarrow> string option \<Rightarrow> MCPManager \<Rightarrow> (py_error + json) \<times> MCPManager" where
  "route_request server_name request user_token m =
     (case dict_get (servers m) server_name of
        None \<Rightarrow> (Inl (ValueError (''Unknown MCP server: '' @ server_name)), m)
      | Some srv \<Rightarrow>
          if status srv \<noteq> RUNNING then
            (Inl (RuntimeError (''MCP server '' @ server_name @ '' is not running (status: ''
                    @ status_value (status srv) @ '')'')), m)
          else case prepare_request request user_token of
                 Inl e \<Rightarrow> (Inl e, m)
               | Inr request' \<Rightarrow>
                   (case send_request request' srv of
                      (result, srv') \<Rightarrow>
                        (result, m\<lparr>servers := dict_set server_name srv' (servers m)\<rparr>)))"

text \<open>
  \<open>add_server\<close>, first the normalization of the container form
  \<open>{"mcpServers": {name: {...}}}\<close> to the flat form.
\<close>

definition normalize_config :: "json dict \<Rightarrow> py_error + json dict" where
  "normalize_config cfg =
     (case dict_get cfg ''mcpServers'' of
        None \<Rightarrow> Inr cfg
      | Some mcp_servers \<Rightarrow>
          if \<not> py_truthy mcp_servers then Inl (ValueError ''mcpServers object is empty'')
          else case mcp_servers of
                 JObj ((server_name, server_config) # others) \<Rightarrow>
                   (case server_config of
                      JObj items \<Rightarrow>
                        Inr (foldl (\<lambda>d (k, v). dict_set k v d) [(''name'', JStr server_name)] items)
                    | _ \<Rightarrow> Inl TypeError)
               | _ \<Rightarrow> Inl AttributeError)"

definition quoted :: "string \<Rightarrow> string" where
  "quoted s = CHR 0x27 # s @ [CHR 0x27]"

definition get_or :: "json dict \<Rightarrow> string \<Rightarrow> json \<Rightarrow> json" where
  "get_or d k dflt = (case dict_get d k of None \<Rightarrow> dflt | Some v \<Rightarrow> v)"

definition build_command_list :: "json \<Rightarrow> json \<Rightarrow> py_error + json" where
  "build_command_list cmd args =
     (case cmd of
        JStr c \<Rightarrow> (case args of JArr xs \<Rightarrow> Inr (JArr (JStr c # xs)) | _ \<Rightarrow> Inl TypeError)
      | JArr cs \<Rightarrow> Inr (JArr cs)
      | _ \<Rightarrow> Inl (ValueError (quoted ''command'' @ '' must be a string or list'')))"

text \<open>
  The registry is keyed by strings. A name that is a non-zero number or \<open>True\<close> passes
  the checks of the source and would become a non-string key; that input is outside
  this model and is reported as \<open>Unmodelled\<close>. A list or dict as name is unhashable and
  raises \<open>TypeError\<close> at \<open>name in self.servers\<close>.
\<close>

definition add_server ::
  "(MCPServerConfig \<Rightarrow> spawn_result) \<Rightarrow> json dict \<Rightarrow> MCPManager
     \<Rightarrow> (py_error + json dict) \<times> MCPManager" where
  "add_server spawn cfg0 m =
     (case normalize_config cfg0 of
        Inl e \<Rightarrow> (Inl e, m)
      | Inr cfg \<Rightarrow>
          if \<not> py_truthy (get_or cfg ''name'' JNull) then
            (Inl (ValueError (''Server configuration must include '' @ quoted ''name'')), m)
          else if \<not> py_truthy (get_or cfg ''command'' JNull) then
            (Inl (ValueError (''Server configuration must include '' @ quoted ''command'')), m)
          else case get_or cfg ''name'' JNull of
                 JArr _ \<Rightarrow> (Inl TypeError, m)
               | JObj _ \<Rightarrow> (Inl TypeError, m)
               | JStr n \<Rightarrow>
                   if dict_has (servers m) n then
                     (Inl (ValueError (''Server '' @ quoted n
                            @ '' already exists. Use restart or remove first.'')), m)
                   else
                     (case build_command_list (get_or cfg ''command'' JNull)
                             (get_or cfg ''args'' (JArr [])) of
                        Inl e \<Rightarrow> (Inl e, m)
                      | Inr command_list \<Rightarrow>
                          (let en = get_or cfg ''enabled'' (JBool True);
                               tr = get_or cfg ''transport'' (JStr ''stdio'');
                               server_config =
                                 \<lparr>name = n, command = command_list,
                                  env = get_or cfg ''env'' (JObj []), transport = tr,
                                  enabled = py_truthy en,
                                  supports_obo = py_truthy (get_or cfg ''supports_obo'' (JBool False))\<rparr>;
                               server = new_server server_config;
                               server' = (if py_truthy en then start spawn server else server)
                           in (Inr [(''name'', JStr n),
                                    (''status'', JStr (status_value (status server'))),
                                    (''command'', command_list),
                                    (''enabled'', en),
                                    (''transport'', tr)],
                               m\<lparr>servers := dict_set n server' (servers m)\<rparr>)))
               | _ \<Rightarrow> (Inl (Unmodelled ''server name is not a string''), m))"

definition unknown_server :: "string \<Rightarrow> py_error" where
  "unknown_server server_id = ValueError (''Unknown server: '' @ server_id)"

definition start_server ::
  "(MCPServerConfig \<Rightarrow> spawn_result) \<Rightarrow> string \<Rightarrow> MCPManager \<Rightarrow> (py_error + unit) \<times> MCPManager" where
  "start_server spawn server_id m =
     (case dict_get (servers m) server_id of
        None \<Rightarrow> (Inl (unknown_server server_id), m)
      | Some server \<Rightarrow> (Inr (), m\<lparr>servers := dict_set server_id (start spawn server) (servers m)\<rparr>))"

definition stop_server :: "string \<Rightarrow> MCPManager \<Rightarrow> (py_error + unit) \<times> MCPManager" where
  "stop_server server_id m =
     (case dict_get (servers m) server_id of
        None \<Rightarrow> (Inl (unknown_server server_id), m)
      | Some server \<Rightarrow> (Inr (), m\<lparr>servers := dict_set server_id (stop server) (servers m)\<rparr>))"

text \<open>
  \<open>remove_server\<close> stops a running provider and deletes its entry; the model returns the
  removed provider as it is left (the source returns \<open>None\<close>).
\<close>

definition remove_server :: "string \<Rightarrow> MCPManager \<Rightarrow> (py_error + MCPServer) \<times> MCPManager" where
  "remove_server server_id m =
     (case dict_get (servers m) server_id of
        None \<Rightarrow> (Inl (unknown_server server_id), m)
      | Some server \<Rightarrow>
          (Inr (if status server = RUNNING then stop server else server),
           m\<lparr>servers := AList.delete server_id (servers m)\<rparr>))"

definition restart_server ::
  "(MCPServerConfig \<Rightarrow> spawn_result) \<Rightarrow> string \<Rightarrow> MCPManager \<Rightarrow> (py_error + unit) \<times> MCPManager" where
  "restart_server spawn server_id m =
     (case dict_get (servers m) server_id of
        None \<Rightarrow> (Inl (unknown_server server_id), m)
      | Some server \<Rightarrow>
          (Inr (), m\<lparr>servers := dict_set server_id (start spawn (stop server)) (servers m)\<rparr>))"

definition set_server_enabled ::
  "(MCPServerConfig \<Rightarrow> spawn_result) \<Rightarrow> string \<Rightarrow> bool \<Rightarrow> MCPManager
     \<Rightarrow> (py_error + json dict) \<times> MCPManager" where
  "set_server_enabled spawn server_id en m =
     (case dict_get (servers m) server_id of
        None \<Rightarrow> (Inl (unknown_server server_id), m)
      | Some server0 \<Rightarrow>
          (let previous_state = enabled (config server0);
               server = server0\<lparr>config := (config server0)\<lparr>enabled := en\<rparr>\<rparr>;
               (persisted, m1) = save_enabled_state_to_redis server_id en m;
               (server', action_taken) =
                 (if en \<and> status server \<noteq> RUNNING then (start spawn server, ''started'')
                  else if \<not> en \<and> status server = RUNNING then (stop server, ''stopped'')
                  else (server, ''no_change''))
           in (Inr [(''server_id'', JStr server_id),
                    (''enabled'', JBool en),
                    (''previous_enabled'', JBool previous_state),
                    (''status'', JStr (status_value (status server'))),
                    (''action'', JStr action_taken),
                    (''persisted_to_redis'', JBool persisted)],
               m1\<lparr>servers := dict_set server_id server' (servers m1)\<rparr>)))"

text \<open>
  \<open>str(e)\<close> of an exception. The message of an exception the interpreter raises itself
  is not modelled: it is represented by the name of the exception's class.
\<close>

fun str_error :: "py_error \<Rightarrow> string" where
  "str_error (RuntimeError msg) = msg"
| "str_error (ValueError msg) = msg"
| "str_error (Unmodelled msg) = msg"
| "str_error (HTTPException code detail) = detail"
| "str_error TypeError = ''TypeError''"
| "str_error KeyError = ''KeyError''"
| "str_error AttributeError = ''AttributeError''"
| "str_error JSONDecodeError = ''JSONDecodeError''"
| "str_error BrokenPipeError = ''BrokenPipeError''"
| "str_error ValidationError = ''ValidationError''"

definition get_server_status :: "MCPManager \<Rightarrow> json dict" where
  "get_server_status m =
     map (\<lambda>(n, server). (n, JObj
        [(''status'', JStr (status_value (status server))),
         (''enabled'', JBool (enabled (config server))),
         (''last_error'', case last_error server of None \<Rightarrow> JNull | Some e \<Rightarrow> JStr e),
         (''transport'', JStr ''stdio''),
         (''pid'', case process server of None \<Rightarrow> JNull | Some c \<Rightarrow> JInt (int (pid c)))]))
       (servers m)"

text \<open>\<open>POST /servers/{server_id}/start\<close> (main.py, \<open>start_server\<close>).\<close>

definition http_start_server ::
  "(MCPServerConfig \<Rightarrow> spawn_result) \<Rightarrow> string \<Rightarrow> MCPManager option
     \<Rightarrow> (py_error + json dict) \<times> MCPManager option" where
  "http_start_server spawn server_id mcp_manager =
     (case mcp_manager of
        None \<Rightarrow> (Inl (HTTPException 503 ''MCP Manager not initialized''), None)
      | Some m \<Rightarrow>
          (case start_server spawn server_id m of
             (Inl e, m') \<Rightarrow> (Inl (HTTPException 500 (str_error e)), Some m')
           | (Inr u, m') \<Rightarrow>
               (Inr [(''success'', JBool True),
                     (''message'', JStr (''Server '' @ server_id @ '' started''))], Some m')))"

text \<open>
  The operations of the manager that change the registry or a provider, as one type, and
  their effect on the manager.
\<close>

datatype operation =
    StartAll
  | StopAll
  | StartServer string
  | StopServer string
  | RestartServer string
  | RemoveServer string
  | AddServer "json dict"
  | SetServerEnabled string bool
  | RouteRequest string "json dict" "string option"

fun apply_operation ::
  "(MCPServerConfig \<Rightarrow> spawn_result) \<Rightarrow> operation \<Rightarrow> MCPManager \<Rightarrow> MCPManager" where
  "apply_operation spawn StartAll m = start_all spawn m"
| "apply_operation spawn StopAll m = stop_all m"
| "apply_operation spawn (StartServer server_id) m = snd (start_server spawn server_id m)"
| "apply_operation spawn (StopServer server_id) m = snd (stop_server server_id m)"
| "apply_operation spawn (RestartServer server_id) m = snd (restart_server spawn server_id m)"
| "apply_operation spawn (RemoveServer server_id) m = snd (remove_server server_id m)"
| "apply_operation spawn (AddServer cfg) m = snd (add_server spawn cfg m)"
| "apply_operation spawn (SetServerEnabled server_id en) m =
     snd (set_server_enabled spawn server_id en m)"
| "apply_operation spawn (RouteRequest server_name request user_token) m =
     snd (route_request server_name request user_token m)"

section \<open>Access Policy Engine (main.py)\<close>

text \<open>
  \<open>fetch_user_mcp_access_policies\<close> asks the platform API for the access summary of each
  group. What the API answers is the environment: per group either a failure (an
  exception or a status other than 200, both skipped by the code) or the list of summary
  items. An item that lacks one of the keys the loop reads raises \<open>KeyError\<close>, which
  abandons the rest of that group's items and keeps what was merged so far.
\<close>

datatype summary_item = Item string string | Malformed

datatype group_summary = FetchFailed | Summary "summary_item list"

fun merge_items :: "summary_item list \<Rightarrow> string dict \<Rightarrow> string dict" where
  "merge_items [] access_map = access_map"
| "merge_items (Malformed # rest) access_map = access_map"
| "merge_items (Item server_name access_type # rest) access_map =
     merge_items rest
       (if \<not> dict_has access_map server_name \<or> access_type = ''allow''
        then dict_set server_name access_type access_map
        else access_map)"

fun merge_groups :: "(string \<Rightarrow> group_summary) \<Rightarrow> string list \<Rightarrow> string dict \<Rightarrow> string dict" where
  "merge_groups api [] access_map = access_map"
| "merge_groups api (group_id # groups) access_map =
     merge_groups api groups
       (case api group_id of
          FetchFailed \<Rightarrow> access_map
        | Summary items \<Rightarrow> merge_items items access_map)"

definition fetch_user_mcp_access_policies ::
  "(string \<Rightarrow> group_summary) \<Rightarrow> string list \<Rightarrow> string dict" where
  "fetch_user_mcp_access_policies api user_groups = merge_groups api user_groups []"

definition admin_servers :: "string list" where
  "admin_servers = [''admin'', ''awp_admin'', ''awp_kubernetes'']"

definition check_server_access :: "string \<Rightarrow> string list \<Rightarrow> string dict \<Rightarrow> bool \<Rightarrow> bool" where
  "check_server_access server_name user_groups access_policies is_admin =
     (if is_admin then True
      else case dict_get access_policies server_name of
             Some access \<Rightarrow> access = ''allow''
           | None \<Rightarrow>
               if server_name \<in> set admin_servers then False
               else True)"

text \<open>
  The filtering loop of \<open>_list_all_tools_impl\<close>: the per-provider tool collections of
  \<open>list_all_tools\<close> are kept for the providers \<open>check_server_access\<close> admits, in order.
\<close>

definition filter_tools ::
  "'t dict \<Rightarrow> string list \<Rightarrow> string dict \<Rightarrow> bool \<Rightarrow> 't dict" where
  "filter_tools all_tools user_groups access_policies is_admin =
     filter (\<lambda>(server_name, tools).
        check_server_access server_name user_groups access_policies is_admin) all_tools"

definition list_all_tools_filtered ::
  "(string \<Rightarrow> group_summary) \<Rightarrow> 't dict \<Rightarrow> string list \<Rightarrow> bool \<Rightarrow> 't dict" where
  "list_all_tools_filtered api all_tools user_groups is_admin =
     filter_tools all_tools user_groups
       (fetch_user_mcp_access_policies api user_groups) is_admin"

section \<open>Auth Pipeline (main.py, \<open>get_user_info\<close>)\<close>

text \<open>
  The principal \<open>get_user_info\<close> returns: a dict with a fixed set of keys. \<open>token\<close> is a
  string or \<open>None\<close>; the other values are whatever the platform API or the token's claims
  hold, so they are JSON values.
\<close>

record user_info =
  token :: "string option"
  payload :: "json dict"
  user_id :: json
  user_name :: json
  email :: json
  upn :: json
  groups :: json
  is_admin :: json








section \<open>Request Router (main.py, \<open>proxy_mcp_request\<close>)\<close>

record MCPRequest =
  rpc_method :: string
  params :: "json dict"
  rpc_id :: string
  server :: "string option"

text \<open>
  \<open>MCPResponse\<close> without its \<open>execution_time\<close> (wall-clock time is not modelled). The
  model validates \<open>result\<close> and \<open>error\<close> as \<open>Optional[Dict[str, Any]]\<close>: \<open>None\<close> or an
  object; anything else raises a validation error.
\<close>

record MCPResponse =
  result :: "json option"
  error :: "json option"
  response_id :: string
  response_server :: "string option"

text \<open>
  The audit record \<open>send_mcp_log_to_api\<close> is scheduled with, without the elapsed time
  and without \<open>params\<close> (the request's own dict object, which \<open>route_request\<close> may have
  mutated by then). \<open>user_email\<close> is read from the key \<open>user_email\<close>, which no principal
  has, so it is always \<open>None\<close>.
\<close>

record audit =
  log_user_id :: json
  log_user_name :: json
  log_user_email :: json
  log_server_name :: string
  log_tool_name :: json
  log_method :: string
  log_result :: "json option"
  log_error :: "json option"
  log_success :: bool

text \<open>
  The auto-detection fallback. \<open>advertised_names\<close> is the list
  \<open>[t["name"] for t in response["result"]["tools"]]\<close> when the response has these keys
  and the comprehension does not raise; otherwise the loop moves on to the next provider
  (a missing key, or an exception caught by \<open>except Exception: continue\<close>).
\<close>

fun tool_entry_name :: "json \<Rightarrow> json option" where
  "tool_entry_name (JObj t) = dict_get t ''name''"
| "tool_entry_name _ = None"

definition advertised_names :: "json \<Rightarrow> json list option" where
  "advertised_names response =
     (case response of
        JObj r \<Rightarrow>
          (case dict_get r ''result'' of
             Some (JObj res) \<Rightarrow>
               (case dict_get res ''tools'' of
                  Some (JArr ts) \<Rightarrow>
                    if list_all (\<lambda>t. tool_entry_name t \<noteq> None) ts
                    then Some (map (\<lambda>t. the (tool_entry_name t)) ts) else None
                | Some (JObj []) \<Rightarrow> Some []
                | Some (JStr []) \<Rightarrow> Some []
                | _ \<Rightarrow> None)
           | _ \<Rightarrow> None)
      | _ \<Rightarrow> None)"

definition advertises :: "json \<Rightarrow> json \<Rightarrow> bool" where
  "advertises response tool_name =
     (case advertised_names response of
        Some server_tools \<Rightarrow> list_ex (\<lambda>t. py_eq t tool_name) server_tools
      | None \<Rightarrow> False)"

definition probe_request :: "string \<Rightarrow> json dict" where
  "probe_request u =
     [(''jsonrpc'', JStr ''2.0''), (''id'', JStr (''auto-detect-'' @ u)),
      (''method'', JStr ''tools/list'')]"

text \<open>
  The loop over \<open>mcp_manager.servers.items()\<close>. \<open>uuid k\<close> is the k-th value of
  \<open>uuid.uuid4().hex[:8]\<close> the process generates; the counter moves on with each probe.
\<close>

fun auto_detect ::
  "(nat \<Rightarrow> string) \<Rightarrow> nat \<Rightarrow> json \<Rightarrow> MCPServer dict \<Rightarrow> string option \<times> MCPServer dict" where
  "auto_detect uuid k tool_name [] = (None, [])"
| "auto_detect uuid k tool_name ((server_name, srv) # rest) =
     (if status srv = RUNNING then
        (case send_request (probe_request (uuid k)) srv of
           (Inr response, srv') \<Rightarrow>
             if advertises response tool_name then (Some server_name, (server_name, srv') # rest)
             else (case auto_detect uuid (Suc k) tool_name rest of
                     (found, rest') \<Rightarrow> (found, (server_name, srv') # rest'))
         | (Inl e, srv') \<Rightarrow>
             (case auto_detect uuid (Suc k) tool_name rest of
                (found, rest') \<Rightarrow> (found, (server_name, srv') # rest')))
      else (case auto_detect uuid k tool_name rest of
              (found, rest') \<Rightarrow> (found, (server_name, srv) # rest')))"

text \<open>The target provider: the request's \<open>server\<close>, or the fallback's find.\<close>

definition resolve_target ::
  "(nat \<Rightarrow> string) \<Rightarrow> MCPRequest \<Rightarrow> MCPManager \<Rightarrow> string option \<times> MCPManager" where
  "resolve_target uuid mcp_request m =
     (case server mcp_request of
        Some (c # cs) \<Rightarrow> (Some (c # cs), m)
      | _ \<Rightarrow>
          if rpc_method mcp_request = ''tools/call''
             \<and> py_truthy (get_or (params mcp_request) ''name'' JNull)
          then (case auto_detect uuid 0 (get_or (params mcp_request) ''name'' JNull) (servers m) of
                  (found, svs) \<Rightarrow> (found, m\<lparr>servers := svs\<rparr>))
          else (None, m))"

text \<open>
  What \<open>proxy_mcp_request\<close> reads from outside: \<open>ENABLE_AUTH\<close>, the process environment
  and the uuid generator. Request headers are a map from the header names the code asks
  for to their values.
\<close>

record proxy_env =
  ENABLE_AUTH :: bool
  os_environ :: "string \<rightharpoonup> string"
  uuid4_hex8 :: "nat \<Rightarrow> string"

definition header_truthy :: "string option \<Rightarrow> bool" where
  "header_truthy h = (case h of Some (c # cs) \<Rightarrow> True | _ \<Rightarrow> False)"

definition principal_is_admin :: "user_info option \<Rightarrow> bool" where
  "principal_is_admin ui = (case ui of None \<Rightarrow> False | Some u \<Rightarrow> py_truthy (is_admin u))"

definition principal_user_id :: "user_info option \<Rightarrow> json" where
  "principal_user_id ui = (case ui of None \<Rightarrow> JNull | Some u \<Rightarrow> user_id u)"

definition principal_user_name :: "user_info option \<Rightarrow> json" where
  "principal_user_name ui = (case ui of None \<Rightarrow> JNull | Some u \<Rightarrow> user_name u)"

text \<open>The admin gate of \<open>proxy_mcp_request\<close> and of \<open>POST /call\<close>: its own set of names.\<close>

definition gate_admin_servers :: "string list" where
  "gate_admin_servers = [''admin'', ''awp_admin'']"

definition admin_gate :: "string \<Rightarrow> user_info option \<Rightarrow> py_error option" where
  "admin_gate target_server ui =
     (if target_server \<in> set gate_admin_servers \<and> \<not> principal_is_admin ui then
        Some (HTTPException 403
          (''Access denied. Admin privileges required to access '' @ quoted target_server
             @ '' server.''))
      else None)"

text \<open>
  The token handed to \<open>route_request\<close>: for a provider flagged \<open>supports_obo\<close>, the
  caller's own \<open>X-Azure-ID-Token\<close> header if there is one, else the principal's bearer
  token; no exchange takes place in the proxy (the source: "pass the ORIGINAL user token").
\<close>

definition select_user_token ::
  "proxy_env \<Rightarrow> (string \<rightharpoonup> string) \<Rightarrow> string \<Rightarrow> user_info option \<Rightarrow> MCPManager \<Rightarrow> string option" where
  "select_user_token penv headers target_server ui m =
     (let server_supports_obo =
            (case dict_get (servers m) target_server of
               Some srv \<Rightarrow> supports_obo (config srv) | None \<Rightarrow> False)
      in case ui of
           None \<Rightarrow> None
         | Some u \<Rightarrow>
             if server_supports_obo \<and> ENABLE_AUTH penv then
               (let use_shared_sp =
                      (lower (getenv_or (os_environ penv) ''AZURE_MCP_USE_SHARED_SP'' ''false'') = ''true'')
                in if \<not> use_shared_sp \<and> header_truthy (token u) \<and> token u \<noteq> Some ''SYSTEM_SP_AUTH''
                   then (if header_truthy (headers ''X-Azure-ID-Token'')
                         then headers ''X-Azure-ID-Token'' else token u)
                   else None)
             else None)"

text \<open>
  \<open>dict(x) if x else {}\<close>. \<open>dict\<close> of a non-empty string raises \<open>ValueError\<close>, of a
  number \<open>TypeError\<close>; \<open>dict\<close> of a non-empty list depends on the shape of its elements
  and is outside this model.
\<close>

definition dict_or_empty :: "json \<Rightarrow> py_error + json dict" where
  "dict_or_empty x =
     (if \<not> py_truthy x then Inr []
      else case x of
             JObj kvs \<Rightarrow> Inr kvs
           | JStr s \<Rightarrow>
               Inl (ValueError ''dictionary update sequence element #0 has length 1; 2 is required'')
           | JArr xs \<Rightarrow> Inl (Unmodelled ''dict() of a list'')
           | _ \<Rightarrow> Inl TypeError)"

text \<open>\<open>s.replace('Bearer ', '')\<close>.\<close>

fun remove_bearer :: "string \<Rightarrow> string" where
  "remove_bearer [] = []"
| "remove_bearer (c # cs) =
     (if startswith (c # cs) ''Bearer '' then remove_bearer (drop 6 cs)
      else c # remove_bearer cs)"

definition servers_needing_user_id :: "string list" where
  "servers_needing_user_id = [''awp_agenticwork_cli'', ''awp_agenticode'']"

definition serverless_tools :: "string list" where
  "serverless_tools = [''run_agenticode_task'', ''run_code_generation'', ''run_file_operation'']"

definition header_api_key :: "(string \<rightharpoonup> string) \<Rightarrow> string" where
  "header_api_key headers =
     (if header_truthy (headers ''X-Api-Key'') then the (headers ''X-Api-Key'')
      else remove_bearer (case headers ''Authorization'' of None \<Rightarrow> [] | Some a \<Rightarrow> a))"

text \<open>The user-id injection block: the \<open>params\<close> sent to the provider.\<close>

definition params_to_send ::
  "(string \<rightharpoonup> string) \<Rightarrow> MCPRequest \<Rightarrow> string \<Rightarrow> json \<Rightarrow> py_error + json dict" where
  "params_to_send headers mcp_request target_server uid =
     (if rpc_method mcp_request = ''tools/call'' \<and> py_truthy uid
         \<and> target_server \<in> set servers_needing_user_id then
        (case dict_get (params mcp_request) ''arguments'' of
           None \<Rightarrow> Inr (params mcp_request)
         | Some a \<Rightarrow>
             (case dict_or_empty a of
                Inl e \<Rightarrow> Inl e
              | Inr args \<Rightarrow>
                  (let inject_uid = (\<not> py_truthy (get_or args ''user_id'' JNull)
                                      \<or> get_or args ''user_id'' JNull = JStr ''default'');
                       args1 = (if inject_uid then dict_set ''user_id'' uid args else args);
                       p1 = (if inject_uid
                             then dict_set ''arguments'' (JObj args1) (params mcp_request)
                             else params mcp_request);
                       api_key = header_api_key headers
                   in if get_or p1 ''name'' (JStr []) \<in> JStr ` set serverless_tools
                         \<and> \<not> py_truthy (get_or args1 ''api_key'' JNull)
                         \<and> api_key \<noteq> [] \<and> startswith api_key ''awc_''
                      then Inr (dict_set ''arguments''
                                  (JObj (dict_set ''api_key'' (JStr api_key) args1)) p1)
                      else Inr p1)))
      else Inr (params mcp_request))"

definition request_data :: "MCPRequest \<Rightarrow> json dict \<Rightarrow> json dict" where
  "request_data mcp_request p =
     [(''jsonrpc'', JStr ''2.0''), (''id'', JStr (rpc_id mcp_request)),
      (''method'', JStr (rpc_method mcp_request)), (''params'', JObj p)]"

definition audit_record ::
  "MCPRequest \<Rightarrow> string \<Rightarrow> user_info option \<Rightarrow> json option \<Rightarrow> json option \<Rightarrow> bool \<Rightarrow> audit" where
  "audit_record mcp_request target_server ui res err ok =
     \<lparr>log_user_id = principal_user_id ui,
      log_user_name = principal_user_name ui,
      log_user_email = JNull,
      log_server_name = target_server,
      log_tool_name =
        (if rpc_method mcp_request = ''tools/call''
         then get_or (params mcp_request) ''name'' (JStr ''unknown'')
         else JStr (rpc_method mcp_request)),
      log_method = rpc_method mcp_request,
      log_result = res, log_error = err, log_success = ok\<rparr>"

definition valid_optional_dict :: "json option \<Rightarrow> bool" where
  "valid_optional_dict v =
     (case v of None \<Rightarrow> True | Some JNull \<Rightarrow> True | Some (JObj kvs) \<Rightarrow> True | _ \<Rightarrow> False)"

definition error_response :: "MCPRequest \<Rightarrow> string \<Rightarrow> py_error \<Rightarrow> MCPResponse" where
  "error_response mcp_request target_server e =
     \<lparr>result = None,
      error = Some (JObj [(''code'', JInt 500), (''message'', JStr (str_error e))]),
      response_id = rpc_id mcp_request, response_server = Some target_server\<rparr>"

text \<open>
  The \<open>try\<close> block of \<open>proxy_mcp_request\<close> and its \<open>except Exception\<close> clause, once the
  target provider is known and the admin gate is passed. An audit record is scheduled
  only \<open>if user_id:\<close>.
\<close>

definition dispatch ::
  "proxy_env \<Rightarrow> MCPRequest \<Rightarrow> (string \<rightharpoonup> string) \<Rightarrow> user_info option \<Rightarrow> string \<Rightarrow> MCPManager
     \<Rightarrow> (py_error + MCPResponse) \<times> MCPManager \<times> audit list" where
  "dispatch penv mcp_request headers ui target_server m =
     (let uid = principal_user_id ui;
          user_token = select_user_token penv headers target_server ui m;
          failure = (\<lambda>e. if py_truthy uid
             then [audit_record mcp_request target_server ui None
                     (Some (JObj [(''code'', JInt 500), (''message'', JStr (str_error e))])) False]
             else [])
      in case params_to_send headers mcp_request target_server uid of
           Inl (Unmodelled what) \<Rightarrow> (Inl (Unmodelled what), m, [])
         | Inl e \<Rightarrow> (Inr (error_response mcp_request target_server e), m, failure e)
         | Inr p \<Rightarrow>
             (case route_request target_server (request_data mcp_request p) user_token m of
                (Inl e, m') \<Rightarrow> (Inr (error_response mcp_request target_server e), m', failure e)
              | (Inr (JObj r), m') \<Rightarrow>
                  (let success = (if py_truthy uid
                         then [audit_record mcp_request target_server ui
                                 (dict_get r ''result'') None True]
                         else [])
                   in if valid_optional_dict (dict_get r ''result'')
                         \<and> valid_optional_dict (dict_get r ''error'')
                      then (Inr \<lparr>result = dict_get r ''result'', error = dict_get r ''error'',
                                 response_id = rpc_id mcp_request,
                                 response_server = Some target_server\<rparr>,
                            m', success)
                      else (Inr (error_response mcp_request target_server ValidationError),
                            m', success @ failure ValidationError))
              | (Inr other, m') \<Rightarrow>
                  (Inr (error_response mcp_request target_server AttributeError), m',
                   failure AttributeError)))"

definition no_server_detail :: "MCPRequest \<Rightarrow> string" where
  "no_server_detail mcp_request =
     ''Server not specified for tool ''
       @ quoted (if params mcp_request = [] then ''unknown''
                 else py_str (get_or (params mcp_request) ''name'' JNull))
       @ ''. The API must include server information in tool metadata.''"

definition proxy_mcp_request ::
  "proxy_env \<Rightarrow> MCPRequest \<Rightarrow> (string \<rightharpoonup> string) \<Rightarrow> user_info option \<Rightarrow> MCPManager option
     \<Rightarrow> (py_error + MCPResponse) \<times> MCPManager option \<times> audit list" where
  "proxy_mcp_request penv mcp_request headers ui mcp_manager =
     (case mcp_manager of
        None \<Rightarrow> (Inl (HTTPException 503 ''MCP Manager not initialized''), None, [])
      | Some m \<Rightarrow>
          (case resolve_target (uuid4_hex8 penv) mcp_request m of
             (Some (c # cs), m1) \<Rightarrow>
               (case admin_gate (c # cs) ui of
                  Some denied \<Rightarrow> (Inl denied, Some m1, [])
                | None \<Rightarrow>
                    (case dispatch penv mcp_request headers ui (c # cs) m1 of
                       (outcome, m2, audits) \<Rightarrow> (outcome, Some m2, audits)))
           | (not_found, m1) \<Rightarrow>
               (Inl (HTTPException 400 (no_server_detail mcp_request)), Some m1, [])))"

text \<open>\<open>POST /mcp/tool\<close>: the convenience wrapper around \<open>proxy_mcp_request\<close>.\<close>

record MCPToolCall =
  call_server :: "string option"
  tool :: string
  arguments :: "json dict"
  call_id :: string

definition call_mcp_tool ::
  "proxy_env \<Rightarrow> MCPToolCall \<Rightarrow> (string \<rightharpoonup> string) \<Rightarrow> user_info option \<Rightarrow> MCPManager option
     \<Rightarrow> (py_error + MCPResponse) \<times> MCPManager option \<times> audit list" where
  "call_mcp_tool penv tool_call headers ui mcp_manager =
     proxy_mcp_request penv
       \<lparr>rpc_method = ''tools/call'',
        params = [(''name'', JStr (tool tool_call)), (''arguments'', JObj (arguments tool_call))],
        rpc_id = call_id tool_call, server = call_server tool_call\<rparr>
       headers ui mcp_manager"

text \<open>
  \<open>POST /call\<close> (the second \<open>call_mcp_tool\<close> of main.py). It schedules no audit record:
  the function has no \<open>BackgroundTasks\<close> parameter and never calls \<open>send_mcp_log_to_api\<close>.
\<close>

fun contains :: "string \<Rightarrow> string \<Rightarrow> bool" where
  "contains [] sub = (sub = [])"
| "contains (c # cs) sub = (startswith (c # cs) sub \<or> contains cs sub)"

definition call_user_token ::
  "(string \<rightharpoonup> string) \<Rightarrow> string \<Rightarrow> user_info option \<Rightarrow> string option" where
  "call_user_token headers server_name ui =
     (case ui of
        None \<Rightarrow> None
      | Some u \<Rightarrow>
          if header_truthy (token u) \<and> token u \<noteq> Some ''SYSTEM_SP_AUTH'' then
            (if contains (lower server_name) ''aws'' \<or> contains (lower server_name) ''azure'' then
               (if header_truthy (headers ''X-Azure-ID-Token'')
                then headers ''X-Azure-ID-Token'' else token u)
             else token u)
          else None)"

definition call_direct ::
  "string \<Rightarrow> string \<Rightarrow> json dict \<Rightarrow> (string \<rightharpoonup> string) \<Rightarrow> user_info option \<Rightarrow> MCPManager option
     \<Rightarrow> (py_error + json dict) \<times> MCPManager option \<times> audit list" where
  "call_direct server_name tool_name args headers ui mcp_manager =
     (case mcp_manager of
        None \<Rightarrow> (Inl (HTTPException 503 ''MCP Manager not initialized''), None, [])
      | Some m \<Rightarrow>
          (case admin_gate server_name ui of
             Some denied \<Rightarrow> (Inl denied, Some m, [])
           | None \<Rightarrow>
               (case route_request server_name
                       [(''jsonrpc'', JStr ''2.0''), (''id'', JInt 1),
                        (''method'', JStr ''tools/call''),
                        (''params'', JObj [(''name'', JStr tool_name), (''arguments'', JObj args)])]
                       (call_user_token headers server_name ui) m of
                  (Inl e, m') \<Rightarrow> (Inl (HTTPException 500 (str_error e)), Some m', [])
                | (Inr res, m') \<Rightarrow>
                    (Inr [(''server'', JStr server_name), (''tool'', JStr tool_name),
                          (''result'', res)], Some m', []))))"

section \<open>Notions of the specification\<close>

text \<open>
  A response is stale for a request when it is an object whose normalized id differs from
  the request's: what the read loop skips with a warning.
\<close>

definition stale :: "json option \<Rightarrow> json \<Rightarrow> bool" where
  "stale request_id r =
     (case r of
        JObj response \<Rightarrow> normalize_id (dict_get response ''id'') \<noteq> normalize_id request_id
      | _ \<Rightarrow> False)"

text \<open>
  The spec's invariant \<open>enabled = false \<Longrightarrow> status \<notin> {Starting, Running}\<close>, for one
  provider and for the registry. A provider is settled when it is not in the middle of a
  start and, if Running, its child is alive. \<open>respects_flag\<close> says in which states an
  operation cannot break the invariant: \<open>start_server\<close> and \<open>restart_server\<close> never
  read the flag, so only on an enabled provider; disabling, only on a settled provider;
  every other operation, always.
\<close>

definition flag_respected :: "MCPServer \<Rightarrow> bool" where
  "flag_respected srv = (enabled (config srv) \<or> (status srv \<noteq> STARTING \<and> status srv \<noteq> RUNNING))"

definition flag_invariant :: "MCPManager \<Rightarrow> bool" where
  "flag_invariant m = list_all (\<lambda>(n, srv). flag_respected srv) (servers m)"

definition settled :: "MCPServer \<Rightarrow> bool" where
  "settled srv =
     (status srv \<noteq> STARTING
      \<and> (status srv = RUNNING \<longrightarrow> (case process srv of None \<Rightarrow> False | Some c \<Rightarrow> alive c)))"

fun respects_flag :: "operation \<Rightarrow> MCPManager \<Rightarrow> bool" where
  "respects_flag (StartServer server_id) m =
     (case dict_get (servers m) server_id of None \<Rightarrow> True | Some srv \<Rightarrow> enabled (config srv))"
| "respects_flag (RestartServer server_id) m =
     (case dict_get (servers m) server_id of None \<Rightarrow> True | Some srv \<Rightarrow> enabled (config srv))"
| "respects_flag (SetServerEnabled server_id en) m =
     (en \<or> (case dict_get (servers m) server_id of None \<Rightarrow> True | Some srv \<Rightarrow> settled srv))"
| "respects_flag _ m = True"

text \<open>A provider as a restart finds it: not started; and the same with the flag off.\<close>

definition fresh :: "MCPServer \<Rightarrow> bool" where
  "fresh srv = (status srv = STOPPED \<and> process srv = None)"


text \<open>
  Whether a request to \<open>proxy_mcp_request\<close> gets as far as the \<open>try\<close> block: a target
  provider is found and the admin gate lets the principal through.
\<close>

definition reaches_dispatch ::
  "proxy_env \<Rightarrow> MCPRequest \<Rightarrow> user_info option \<Rightarrow> MCPManager \<Rightarrow> bool" where
  "reaches_dispatch penv mcp_request ui m =
     (case resolve_target (uuid4_hex8 penv) mcp_request m of
        (Some (c # cs), m1) \<Rightarrow> admin_gate (c # cs) ui = None
      | _ \<Rightarrow> False)"

text \<open>
  The provider call of a dispatched request: what \<open>route_request\<close> is called with and
  returns, or the exception of the injection block before it.
\<close>

definition provider_call ::
  "proxy_env \<Rightarrow> MCPRequest \<Rightarrow> (string \<rightharpoonup> string) \<Rightarrow> user_info option \<Rightarrow> MCPManager
     \<Rightarrow> py_error + json" where
  "provider_call penv mcp_request headers ui m =
     (case resolve_target (uuid4_hex8 penv) mcp_request m of
        (Some target_server, m1) \<Rightarrow>
          (case params_to_send headers mcp_request target_server (principal_user_id ui) of
             Inl e \<Rightarrow> Inl e
           | Inr p \<Rightarrow>
               fst (route_request target_server (request_data mcp_request p)
                      (select_user_token penv headers target_server ui m1) m1))
      | (None, m1) \<Rightarrow> Inl (HTTPException 400 (no_server_detail mcp_request)))"

definition well_formed_response :: "json \<Rightarrow> bool" where
  "well_formed_response response =
     (case response of
        JObj r \<Rightarrow> valid_optional_dict (dict_get r ''result'')
                   \<and> valid_optional_dict (dict_get r ''error'')
      | _ \<Rightarrow> False)"

definition audits_of :: "'a \<times> 'b \<times> audit list \<Rightarrow> audit list" where
  "audits_of outcome = snd (snd outcome)"

text \<open>The value at a path of keys inside a JSON object.\<close>

fun json_path :: "json \<Rightarrow> string list \<Rightarrow> json option" where
  "json_path v [] = Some v"
| "json_path (JObj kvs) (k # ks) =
     (case dict_get kvs k of None \<Rightarrow> None | Some v \<Rightarrow> json_path v ks)"
| "json_path v (k # ks) = None"

text \<open>
  A request whose \<open>params\<close> is missing or an object, and whose \<open>arguments\<close> and
  \<open>meta\<close> inside it are each missing, \<open>None\<close> or an object.
\<close>

definition absent_null_or_object :: "json option \<Rightarrow> bool" where
  "absent_null_or_object v =
     (case v of None \<Rightarrow> True | Some JNull \<Rightarrow> True | Some (JObj kvs) \<Rightarrow> True | _ \<Rightarrow> False)"

definition injectable :: "json dict \<Rightarrow> bool" where
  "injectable request =
     (case dict_get request ''params'' of
        None \<Rightarrow> True
      | Some (JObj ps) \<Rightarrow>
          absent_null_or_object (dict_get ps ''arguments'')
          \<and> absent_null_or_object (json_path (JObj ps) [''arguments'', ''meta''])
      | _ \<Rightarrow> False)"

text \<open>
  The request with the token in it, as the specification describes the object written to
  the child: the value at \<open>params.arguments.meta.userAccessToken\<close> is the token, the
  three objects on the way are the request's own (an empty one where the request has
  none), and every other key, at every level, is as in the request.
\<close>

definition object_at :: "json dict \<Rightarrow> string list \<Rightarrow> json dict" where
  "object_at request path =
     (case json_path (JObj request) path of Some (JObj kvs) \<Rightarrow> kvs | _ \<Rightarrow> [])"

definition with_token :: "string \<Rightarrow> json dict \<Rightarrow> json dict" where
  "with_token t request =
     dict_set ''params''
       (JObj (dict_set ''arguments''
          (JObj (dict_set ''meta''
             (JObj (dict_set ''userAccessToken'' (JStr t)
                (object_at request [''params'', ''arguments'', ''meta''])))
             (object_at request [''params'', ''arguments''])))
          (object_at request [''params''])))
       request"

text \<open>
  The caller's own tokens. A principal's bearer token is usable when it is non-empty and
  not the service-principal sentinel. \<open>id_token_or headers tok\<close> is the caller's
  \<open>X-Azure-ID-Token\<close> header when the request has a non-empty one, and \<open>tok\<close> otherwise;
  \<open>call_token\<close> is the choice of \<open>POST /call\<close>, which looks at the header only for a
  provider whose name contains \<open>aws\<close> or \<open>azure\<close>. \<open>call_request_data\<close> is the request
  \<open>POST /call\<close> builds.
\<close>

definition usable_bearer :: "user_info option \<Rightarrow> string option" where
  "usable_bearer ui =
     (case ui of
        None \<Rightarrow> None
      | Some u \<Rightarrow>
          (case token u of
             Some (c # cs) \<Rightarrow> if c # cs = ''SYSTEM_SP_AUTH'' then None else Some (c # cs)
           | _ \<Rightarrow> None))"

definition shared_sp_mode :: "proxy_env \<Rightarrow> bool" where
  "shared_sp_mode penv =
     (lower (getenv_or (os_environ penv) ''AZURE_MCP_USE_SHARED_SP'' ''false'') = ''true'')"

definition id_token_or :: "(string \<rightharpoonup> string) \<Rightarrow> string \<Rightarrow> string" where
  "id_token_or headers tok =
     (case headers ''X-Azure-ID-Token'' of Some (c # cs) \<Rightarrow> c # cs | _ \<Rightarrow> tok)"

definition call_token :: "(string \<rightharpoonup> string) \<Rightarrow> string \<Rightarrow> string \<Rightarrow> string" where
  "call_token headers server_name tok =
     (if contains (lower server_name) ''aws'' \<or> contains (lower server_name) ''azure''
      then id_token_or headers tok else tok)"

definition call_request_data :: "string \<Rightarrow> json dict \<Rightarrow> json dict" where
  "call_request_data tool_name args =
     [(''jsonrpc'', JStr ''2.0''), (''id'', JInt 1), (''method'', JStr ''tools/call''),
      (''params'', JObj [(''name'', JStr tool_name), (''arguments'', JObj args)])]"

text \<open>
  What the children of the registry have been sent, per provider, and what the child of
  one provider has been sent.
\<close>

definition written :: "MCPManager \<Rightarrow> (string \<times> json list) list" where
  "written m =
     map (\<lambda>(n, srv). (n, case process srv of None \<Rightarrow> [] | Some c \<Rightarrow> stdin c)) (servers m)"

definition sent_to :: "MCPManager \<Rightarrow> string \<Rightarrow> json list" where
  "sent_to m n =
     (case dict_get (servers m) n of
        None \<Rightarrow> []
      | Some srv \<Rightarrow> (case process srv of None \<Rightarrow> [] | Some c \<Rightarrow> stdin c))"





section \<open>Example data\<close>

definition demo_child :: "line list \<Rightarrow> child" where
  "demo_child out = \<lparr>pid = 4711, alive = True, stdin = [], stdout = out, stderr = []\<rparr>"

definition demo_config :: "string \<Rightarrow> MCPServerConfig" where
  "demo_config n = \<lparr>name = n, command = JArr [JStr ''node'', JStr ''server.js''], env = JObj [],
     transport = JStr ''stdio'', enabled = True, supports_obo = False\<rparr>"

definition demo_server :: "string \<Rightarrow> line list \<Rightarrow> MCPServer" where
  "demo_server n out =
     \<lparr>config = demo_config n, process = Some (demo_child out), status = RUNNING, last_error = None\<rparr>"

definition stale_doc :: json where
  "stale_doc = JObj [(''id'', JStr ''old''), (''result'', JObj [])]"

definition list_request :: "json dict" where
  "list_request = [(''jsonrpc'', JStr ''2.0''), (''id'', JStr ''1''), (''method'', JStr ''tools/list'')]"

text \<open>Example data: a manager over a reachable empty store, a launch that succeeds.\<close>

definition demo_manager :: "MCPServer dict \<Rightarrow> MCPManager" where
  "demo_manager svs = \<lparr>servers = svs, redis_client = Some \<lparr>up = True, kv = Map.empty\<rparr>\<rparr>"

definition spawn_ok :: "MCPServerConfig \<Rightarrow> spawn_result" where
  "spawn_ok cfg = Spawned \<lparr>pid = 100, alive = True, stdin = [],
     stdout = [Doc (JObj [(''jsonrpc'', JStr ''2.0''), (''id'', JInt 0), (''result'', JObj [])])],
     stderr = []\<rparr>"

definition disabled_server :: "string \<Rightarrow> MCPServer" where
  "disabled_server n = new_server ((demo_config n)\<lparr>enabled := False\<rparr>)"


definition plain_user :: user_info where
  "plain_user =
     \<lparr>token = Some ''user-access-token'', payload = [], user_id = JStr ''u1'',
      user_name = JStr ''Uma'', email = JStr ''uma@example.org'', upn = JNull,
      groups = JArr [], is_admin = JBool False\<rparr>"

definition demo_penv :: proxy_env where
  "demo_penv = \<lparr>ENABLE_AUTH = True, os_environ = Map.empty, uuid4_hex8 = (\<lambda>k. ''0000000'' @ str_nat k)\<rparr>"

definition tool_request :: "string option \<Rightarrow> string \<Rightarrow> MCPRequest" where
  "tool_request target tool_name =
     \<lparr>rpc_method = ''tools/call'',
      params = [(''name'', JStr tool_name), (''arguments'', JObj [])],
      rpc_id = ''7'', server = target\<rparr>"

definition ok_response :: "json \<Rightarrow> line" where
  "ok_response i = Doc (JObj [(''jsonrpc'', JStr ''2.0''), (''id'', i),
     (''result'', JObj [(''content'', JArr [])])])"

definition obo_server :: "string \<Rightarrow> line list \<Rightarrow> MCPServer" where
  "obo_server n out = (demo_server n out)\<lparr>config := (demo_config n)\<lparr>supports_obo := True\<rparr>\<rparr>"



text \<open>Example requests' headers, and a platform API that grants group \<open>g1\<close> access to \<open>awp_admin\<close>.\<close>

definition no_headers :: "string \<rightharpoonup> string" where
  "no_headers = Map.empty"

definition id_token_headers :: "string \<rightharpoonup> string" where
  "id_token_headers = [''X-Azure-ID-Token'' \<mapsto> ''caller-id-token'']"

definition g1_policy_api :: "string \<Rightarrow> group_summary" where
  "g1_policy_api g = (if g = ''g1'' then Summary [Item ''awp_admin'' ''allow''] else FetchFailed)"

text \<open>
  Example data for the token injection: a process with \<open>ENABLE_AUTH\<close> off, a
  \<open>tools/call\<close> without \<open>params\<close>, registries with one provider flagged \<open>supports_obo\<close>,
  and the \<open>arguments\<close> object that holds nothing but the token.
\<close>

definition auth_off_penv :: proxy_env where
  "auth_off_penv = demo_penv\<lparr>ENABLE_AUTH := False\<rparr>"

definition bare_call :: "json dict" where
  "bare_call = [(''jsonrpc'', JStr ''2.0''), (''id'', JStr ''7''), (''method'', JStr ''tools/call'')]"

definition azure_manager :: MCPManager where
  "azure_manager = demo_manager [(''awp_azure'', obo_server ''awp_azure'' [ok_response (JStr ''7'')])]"

definition flowise_manager :: MCPManager where
  "flowise_manager =
     demo_manager [(''awp_flowise'', obo_server ''awp_flowise'' [ok_response (JInt 1)])]"

definition token_meta :: "string \<Rightarrow> json" where
  "token_meta t = JObj [(''meta'', JObj [(''userAccessToken'', JStr t)])]"



section \<open>Auxiliary lemmas\<close>

subsection \<open>The read loop and \<open>send_request\<close>\<close>

lemma read_loop_consumes:
  "read_loop n rid out = (res, rest) \<Longrightarrow> \<exists>consumed. out = consumed @ rest \<and> length consumed \<le> n"
proof (induction n arbitrary: out)
  case 0
  then show ?case by simp
next
  case (Suc n)
  show ?case
  proof (cases out)
    case Nil
    with Suc.prems show ?thesis by (simp add: readline_def strip_def)
  next
    case (Cons l ls)
    show ?thesis
    proof (cases l)
      case (Raw s)
      with Cons Suc.prems have "rest = ls" by (auto simp: readline_def split: if_splits)
      with Cons show ?thesis by (intro exI [of _ "[l]"]) simp
    next
      case (Doc j)
      show ?thesis
      proof (cases "\<exists>response. j = JObj response \<and> normalize_id rid \<noteq> normalize_id (dict_get response ''id'')")
        case True
        then obtain response where j: "j = JObj response"
          and ne: "normalize_id rid \<noteq> normalize_id (dict_get response ''id'')" by blast
        from Suc.prems Cons Doc j ne have "read_loop n rid ls = (res, rest)"
          by (simp add: readline_def)
        from Suc.IH [OF this] obtain consumed where "ls = consumed @ rest" "length consumed \<le> n"
          by blast
        with Cons show ?thesis by (intro exI [of _ "l # consumed"]) simp
      next
        case False
        with Suc.prems Cons Doc have "rest = ls"
          by (cases j) (auto simp: readline_def split: if_splits)
        with Cons show ?thesis by (intro exI [of _ "[l]"]) simp
      qed
    qed
  qed
qed

lemma read_loop_skip:
  "\<forall>x \<in> set skipped. stale rid x \<Longrightarrow> length skipped \<le> n \<Longrightarrow>
   read_loop n rid (map Doc skipped @ rest) = read_loop (n - length skipped) rid rest"
proof (induction skipped arbitrary: n)
  case Nil
  then show ?case by simp
next
  case (Cons x xs)
  then obtain m where n: "n = Suc m" by (cases n) auto
  from Cons.prems obtain response where x: "x = JObj response"
    and ne: "normalize_id (dict_get response ''id'') \<noteq> normalize_id rid"
    by (cases x) (auto simp: stale_def)
  from Cons.prems n have "read_loop m rid (map Doc xs @ rest) = read_loop (m - length xs) rid rest"
    by (intro Cons.IH) auto
  with n x ne show ?case by (auto simp: readline_def)
qed

lemma read_loop_returns:
  "read_loop n rid out = (Inr r, rest) \<Longrightarrow>
   \<exists>skipped response. out = map Doc skipped @ Doc r # rest \<and> length skipped < n
      \<and> (\<forall>x \<in> set skipped. stale rid x)
      \<and> r = JObj response \<and> normalize_id (dict_get response ''id'') = normalize_id rid"
proof (induction n arbitrary: out)
  case 0
  then show ?case by simp
next
  case (Suc n)
  show ?case
  proof (cases out)
    case Nil
    with Suc.prems show ?thesis by (simp add: readline_def strip_def)
  next
    case (Cons l ls)
    show ?thesis
    proof (cases l)
      case (Raw s)
      with Cons Suc.prems show ?thesis by (auto simp: readline_def split: if_splits)
    next
      case (Doc j)
      show ?thesis
      proof (cases "stale rid j")
        case True
        then obtain response where j: "j = JObj response"
          and ne: "normalize_id (dict_get response ''id'') \<noteq> normalize_id rid"
          by (cases j) (auto simp: stale_def)
        from Suc.prems Cons Doc j ne have "read_loop n rid ls = (Inr r, rest)"
          by (auto simp: readline_def)
        from Suc.IH [OF this] obtain skipped response' where
          "ls = map Doc skipped @ Doc r # rest" "length skipped < n"
          "\<forall>x \<in> set skipped. stale rid x" "r = JObj response'"
          "normalize_id (dict_get response' ''id'') = normalize_id rid" by blast
        with Cons Doc True show ?thesis
          by (intro exI [of _ "j # skipped"] exI [of _ response']) simp
      next
        case False
        with Suc.prems Cons Doc obtain response where
          "j = JObj response" "r = j" "rest = ls"
          "normalize_id (dict_get response ''id'') = normalize_id rid"
          by (cases j) (auto simp: readline_def stale_def split: if_splits)
        with Cons Doc show ?thesis
          by (intro exI [of _ "[]"] exI [of _ response]) simp
      qed
    qed
  qed
qed

lemma send_request_returns:
  assumes "send_request request srv = (Inr r, srv')"
  shows "\<exists>p rest. process srv = Some p \<and> status srv = RUNNING \<and> alive p
      \<and> read_loop max_attempts (dict_get request ''id'') (stdout p) = (Inr r, rest)
      \<and> srv' = srv\<lparr>process := Some (p\<lparr>stdin := stdin p @ [JObj request], stdout := rest\<rparr>)\<rparr>"
  using assms
  by (auto simp: send_request_def split: option.splits if_splits prod.splits)

lemma send_request_running:
  assumes "process srv = Some p" "status srv = RUNNING" "alive p"
  shows "send_request request srv =
     (fst (read_loop max_attempts (dict_get request ''id'') (stdout p)),
      srv\<lparr>process := Some (p\<lparr>stdin := stdin p @ [JObj request],
            stdout := snd (read_loop max_attempts (dict_get request ''id'') (stdout p))\<rparr>)\<rparr>)"
  using assms by (simp add: send_request_def split: prod.splits)

lemma read_loop_blank:
  assumes "\<forall>x \<in> set skipped. stale rid x" "length skipped < n" "strip s = []"
  shows "read_loop n rid (map Doc skipped @ Raw s # rest)
           = (Inl (RuntimeError ''Empty response from MCP server''), rest)"
proof -
  from assms obtain m where m: "n - length skipped = Suc m" by (cases "n - length skipped") auto
  from assms have "read_loop n rid (map Doc skipped @ Raw s # rest)
      = read_loop (n - length skipped) rid (Raw s # rest)"
    by (intro read_loop_skip) auto
  with m assms show ?thesis by (simp add: readline_def)
qed

lemma read_loop_eof:
  assumes "\<forall>x \<in> set skipped. stale rid x" "length skipped < n"
  shows "read_loop n rid (map Doc skipped)
           = (Inl (RuntimeError ''Empty response from MCP server''), [])"
proof -
  from assms obtain m where m: "n - length skipped = Suc m" by (cases "n - length skipped") auto
  from assms have "read_loop n rid (map Doc skipped @ [])
      = read_loop (n - length skipped) rid []"
    by (intro read_loop_skip) auto
  with m show ?thesis by (simp add: readline_def strip_def)
qed

lemma read_loop_exhausted:
  assumes "\<forall>x \<in> set skipped. stale rid x" "length skipped = n"
  shows "read_loop n rid (map Doc skipped @ rest)
           = (Inl (RuntimeError ''Failed to get matching response after 10 attempts''), rest)"
proof -
  from assms have "read_loop n rid (map Doc skipped @ rest)
      = read_loop (n - length skipped) rid rest"
    by (intro read_loop_skip) auto
  with assms show ?thesis by simp
qed

lemma send_request_consumes:
  assumes "process srv = Some p"
  shows "\<exists>p' consumed. process (snd (send_request request srv)) = Some p'
           \<and> stdout p = consumed @ stdout p' \<and> length consumed \<le> max_attempts"
proof (cases "status srv = RUNNING \<and> alive p")
  case True
  obtain res rest where loop:
    "read_loop max_attempts (dict_get request ''id'') (stdout p) = (res, rest)"
    by (cases "read_loop max_attempts (dict_get request ''id'') (stdout p)")
  from read_loop_consumes [OF loop] obtain consumed where
    "stdout p = consumed @ rest" "length consumed \<le> max_attempts" by blast
  with True assms loop show ?thesis
    by (simp add: send_request_running)
next
  case False
  with assms show ?thesis
    by (auto simp: send_request_def)
qed

subsection \<open>Configuration and status under start, stop and send\<close>

lemma config_send_request [simp]: "config (snd (send_request request srv)) = config srv"
  by (simp add: send_request_def split: option.splits prod.splits)

lemma status_send_request:
  "status (snd (send_request request srv)) = status srv
   \<or> status (snd (send_request request srv)) = FAILED"
  by (simp add: send_request_def split: option.splits prod.splits)

lemma config_start [simp]: "config (start spawn srv) = config srv"
  by (simp add: start_def split: spawn_result.splits)

lemma config_stop [simp]: "config (stop srv) = config srv"
  by (simp add: stop_def split: option.splits)

lemma status_stop: "status (stop srv) = status srv \<or> status (stop srv) = STOPPED"
  by (simp add: stop_def split: option.splits)

lemma flag_respected_send_request:
  "flag_respected srv \<Longrightarrow> flag_respected (snd (send_request request srv))"
  using status_send_request [of request srv] by (auto simp: flag_respected_def)

lemma flag_respected_stop: "flag_respected srv \<Longrightarrow> flag_respected (stop srv)"
  using status_stop [of srv] by (auto simp: flag_respected_def)

lemma flag_respected_start_enabled:
  "enabled (config srv) \<Longrightarrow> flag_respected (start spawn srv)"
  by (simp add: flag_respected_def)

lemma config_new_server [simp]: "config (new_server cfg) = cfg"
  by (simp add: new_server_def)

lemma flag_respected_new_server: "flag_respected (new_server cfg)"
  by (simp add: flag_respected_def new_server_def)

subsection \<open>The enabled-flag invariant under the manager's operations\<close>

lemma set_dict_set: "set (dict_set k v al) \<subseteq> insert (k, v) (set al)"
  by (induction al) auto

lemma set_dict_delete: "set (AList.delete k al) \<subseteq> set al"
  by (induction al) auto

lemma flag_invariant_iff:
  "flag_invariant m \<longleftrightarrow> (\<forall>(n, srv) \<in> set (servers m). flag_respected srv)"
  by (simp add: flag_invariant_def list_all_iff)

lemma flag_invariant_update:
  assumes "flag_invariant m" "flag_respected srv"
  shows "flag_invariant (m\<lparr>servers := dict_set n srv (servers m)\<rparr>)"
  using assms set_dict_set [of n srv "servers m"]
  by (auto simp: flag_invariant_iff)

lemma flag_invariant_lookup:
  "flag_invariant m \<Longrightarrow> dict_get (servers m) n = Some srv \<Longrightarrow> flag_respected srv"
  by (auto simp: flag_invariant_iff dest: map_of_SomeD)

lemma flag_invariant_start_all: "flag_invariant m \<Longrightarrow> flag_invariant (start_all spawn m)"
  by (auto simp: flag_invariant_iff start_all_def flag_respected_start_enabled)

lemma flag_invariant_stop_all: "flag_invariant m \<Longrightarrow> flag_invariant (stop_all m)"
  by (auto simp: flag_invariant_iff stop_all_def flag_respected_stop)

lemma flag_invariant_modify:
  assumes "flag_invariant m" "dict_get (servers m) n = Some srv"
    and "flag_respected srv \<Longrightarrow> flag_respected srv'"
  shows "flag_invariant (m\<lparr>servers := dict_set n srv' (servers m)\<rparr>)"
proof -
  from assms(1,2) have "flag_respected srv" by (rule flag_invariant_lookup)
  then have "flag_respected srv'" by (rule assms(3))
  with assms(1) show ?thesis by (rule flag_invariant_update)
qed

lemma flag_invariant_stop_server:
  assumes "flag_invariant m"
  shows "flag_invariant (snd (stop_server server_id m))"
proof (cases "dict_get (servers m) server_id")
  case None
  with assms show ?thesis by (simp add: stop_server_def)
next
  case (Some srv)
  have "flag_invariant (m\<lparr>servers := dict_set server_id (stop srv) (servers m)\<rparr>)"
    using assms Some by (rule flag_invariant_modify) (rule flag_respected_stop)
  with Some show ?thesis by (simp add: stop_server_def)
qed

lemma flag_invariant_start_server:
  assumes "flag_invariant m" "respects_flag (StartServer server_id) m"
  shows "flag_invariant (snd (start_server spawn server_id m))"
proof (cases "dict_get (servers m) server_id")
  case None
  with assms show ?thesis by (simp add: start_server_def)
next
  case (Some srv)
  with assms(2) have "enabled (config srv)" by simp
  then have "flag_respected (start spawn srv)" by (rule flag_respected_start_enabled)
  with assms(1) have
    "flag_invariant (m\<lparr>servers := dict_set server_id (start spawn srv) (servers m)\<rparr>)"
    by (rule flag_invariant_update)
  with Some show ?thesis by (simp add: start_server_def)
qed

lemma flag_invariant_restart_server:
  assumes "flag_invariant m" "respects_flag (RestartServer server_id) m"
  shows "flag_invariant (snd (restart_server spawn server_id m))"
proof (cases "dict_get (servers m) server_id")
  case None
  with assms show ?thesis by (simp add: restart_server_def)
next
  case (Some srv)
  with assms(2) have "enabled (config (stop srv))" by simp
  then have "flag_respected (start spawn (stop srv))" by (rule flag_respected_start_enabled)
  with assms(1) have
    "flag_invariant (m\<lparr>servers := dict_set server_id (start spawn (stop srv)) (servers m)\<rparr>)"
    by (rule flag_invariant_update)
  with Some show ?thesis by (simp add: restart_server_def)
qed

lemma flag_invariant_remove_server:
  "flag_invariant m \<Longrightarrow> flag_invariant (snd (remove_server server_id m))"
  using set_dict_delete [of server_id "servers m"]
  by (auto simp: remove_server_def flag_invariant_iff split: option.splits)

lemma flag_invariant_route_request:
  assumes "flag_invariant m"
  shows "flag_invariant (snd (route_request server_name request user_token m))"
proof (cases "dict_get (servers m) server_name")
  case None
  with assms show ?thesis by (simp add: route_request_def)
next
  case (Some srv)
  show ?thesis
  proof (cases "prepare_request request user_token")
    case (Inl e)
    with assms Some show ?thesis by (simp add: route_request_def)
  next
    case (Inr request')
    have "flag_invariant
        (m\<lparr>servers := dict_set server_name (snd (send_request request' srv)) (servers m)\<rparr>)"
      using assms Some by (rule flag_invariant_modify) (rule flag_respected_send_request)
    with assms Some Inr show ?thesis
      by (simp add: route_request_def case_prod_beta)
  qed
qed

lemma flag_invariant_add_server:
  assumes "flag_invariant m"
  shows "flag_invariant (snd (add_server spawn cfg m))"
  using assms
  by (auto simp: add_server_def Let_def flag_respected_start_enabled
        flag_respected_new_server
      split: sum.splits json.splits intro!: flag_invariant_update)

lemma servers_save [simp]:
  "servers (snd (save_enabled_state_to_redis n en m)) = servers m"
  by (simp add: save_enabled_state_to_redis_def split: option.splits)

lemma flag_invariant_save:
  "flag_invariant m \<Longrightarrow> flag_invariant (snd (save_enabled_state_to_redis n en m))"
  by (simp add: flag_invariant_def)

lemma stop_settled:
  "settled srv \<Longrightarrow> status srv = RUNNING \<Longrightarrow> status (stop srv) = STOPPED"
  by (auto simp: settled_def stop_def split: option.splits)

lemma flag_invariant_set_server_enabled:
  assumes "flag_invariant m" "respects_flag (SetServerEnabled server_id en) m"
  shows "flag_invariant (snd (set_server_enabled spawn server_id en m))"
proof (cases "dict_get (servers m) server_id")
  case None
  with assms show ?thesis by (simp add: set_server_enabled_def)
next
  case (Some server0)
  let ?server = "server0\<lparr>config := (config server0)\<lparr>enabled := en\<rparr>\<rparr>"
  let ?server' = "if en \<and> status ?server \<noteq> RUNNING then start spawn ?server
                  else if \<not> en \<and> status ?server = RUNNING then stop ?server else ?server"
  have "flag_respected ?server'"
  proof (cases en)
    case True
    then show ?thesis by (simp add: flag_respected_def)
  next
    case False
    with assms Some have "settled server0" by simp
    then have "settled ?server" by (simp add: settled_def)
    with False stop_settled [of ?server] show ?thesis
      by (auto simp: flag_respected_def settled_def)
  qed
  moreover have "flag_invariant (snd (save_enabled_state_to_redis server_id en m))"
    using assms(1) by (rule flag_invariant_save)
  ultimately have "flag_invariant ((snd (save_enabled_state_to_redis server_id en m))
      \<lparr>servers := dict_set server_id ?server'
         (servers (snd (save_enabled_state_to_redis server_id en m)))\<rparr>)"
    by (intro flag_invariant_update)
  with Some show ?thesis
    by (cases en; cases "status server0 = RUNNING")
      (simp_all add: set_server_enabled_def Let_def case_prod_beta)
qed

subsection \<open>Loading the flags at startup\<close>

lemma load_enabled_states_keeps_fresh:
  assumes "dict_get svs p = Some srv" "fresh srv"
  shows "\<exists>srv'. dict_get (load_enabled_states r names svs) p = Some srv' \<and> fresh srv'"
  using assms
proof (induction names arbitrary: svs srv)
  case Nil
  then show ?case by simp
next
  case (Cons n names)
  show ?case
  proof (cases "up r")
    case False
    with Cons.prems show ?thesis by simp
  next
    case True
    show ?thesis
    proof (cases "kv r (REDIS_MCP_ENABLED_PREFIX @ n)")
      case None
      with True Cons show ?thesis by simp
    next
      case (Some b)
      show ?thesis
      proof (cases b)
        case Undecodable
        with True Some Cons.prems show ?thesis by simp
      next
        case (Text v)
        show ?thesis
        proof (cases "dict_get svs n")
          case None
          with True Some Text Cons show ?thesis by simp
        next
          case (Some s)
          let ?svs = "dict_set n (s\<lparr>config := (config s)\<lparr>enabled := (lower v = ''true'')\<rparr>\<rparr>) svs"
          have "\<exists>srv1. dict_get ?svs p = Some srv1 \<and> fresh srv1"
            using Cons.prems Some by (auto simp: update_conv' fresh_def)
          then obtain srv1 where "dict_get ?svs p = Some srv1" "fresh srv1" by blast
          from Cons.IH [OF this] True \<open>kv r (REDIS_MCP_ENABLED_PREFIX @ n) = Some b\<close> Text Some
          show ?thesis by simp
        qed
      qed
    qed
  qed
qed





lemma builtin_fresh: "fresh (snd (builtin n cmd overlay obo))"
  by (simp add: builtin_def fresh_def new_server_def)









subsection \<open>Audit records\<close>

lemma audits_not_dispatched:
  assumes "\<not> reaches_dispatch penv mcp_request ui m"
  shows "audits_of (proxy_mcp_request penv mcp_request headers ui (Some m)) = []"
  using assms
  by (auto simp: reaches_dispatch_def proxy_mcp_request_def audits_of_def
      split: prod.splits option.splits list.splits)

lemma audits_dispatch_no_user_id:
  assumes "\<not> py_truthy (principal_user_id ui)"
  shows "snd (snd (dispatch penv mcp_request headers ui target_server m)) = []"
  using assms
  by (auto simp: dispatch_def Let_def split: sum.splits py_error.splits prod.splits json.splits)

lemma audits_no_user_id:
  assumes "\<not> py_truthy (principal_user_id ui)"
  shows "audits_of (proxy_mcp_request penv mcp_request headers ui (Some m)) = []"
  using audits_dispatch_no_user_id [OF assms]
  by (auto simp: proxy_mcp_request_def audits_of_def
      split: prod.splits option.splits list.splits)
    (metis snd_conv)+

lemma audits_call_direct:
  "audits_of (call_direct server_name tool_name args headers ui mcp_manager) = []"
  by (auto simp: call_direct_def audits_of_def split: option.splits prod.splits sum.splits)

lemma dispatch_one_record:
  assumes uid: "py_truthy (principal_user_id ui)"
    and call: "call = (case params_to_send headers mcp_request target_server (principal_user_id ui) of
             Inl e \<Rightarrow> Inl e
           | Inr p \<Rightarrow>
               fst (route_request target_server (request_data mcp_request p)
                      (select_user_token penv headers target_server ui m) m))"
    and modelled: "\<forall>what. call \<noteq> Inl (Unmodelled what)"
    and wf: "\<forall>response. call = Inr response \<longrightarrow> well_formed_response response"
  shows "\<exists>rec. snd (snd (dispatch penv mcp_request headers ui target_server m)) = [rec]
           \<and> (log_success rec \<longleftrightarrow> (\<exists>response. call = Inr response))"
proof (cases "params_to_send headers mcp_request target_server (principal_user_id ui)")
  case (Inl e)
  with call have c: "call = Inl e" by simp
  with modelled have "\<forall>what. e \<noteq> Unmodelled what" by auto
  with Inl uid c show ?thesis
    by (cases e) (auto simp: dispatch_def Let_def audit_record_def)
next
  case (Inr p)
  obtain res m' where rr: "route_request target_server (request_data mcp_request p)
      (select_user_token penv headers target_server ui m) m = (res, m')"
    by (cases "route_request target_server (request_data mcp_request p)
      (select_user_token penv headers target_server ui m) m")
  with Inr call have c: "call = res" by simp
  show ?thesis
  proof (cases res)
    case (Inl e)
    with Inr rr uid c show ?thesis
      by (auto simp: dispatch_def Let_def audit_record_def)
  next
    case (Inr response)
    with c wf have "well_formed_response response" by simp
    then obtain r where r: "response = JObj r"
      "valid_optional_dict (dict_get r ''result'')" "valid_optional_dict (dict_get r ''error'')"
      by (cases response) (auto simp: well_formed_response_def)
    with \<open>params_to_send headers mcp_request target_server (principal_user_id ui) = Inr p\<close>
      rr uid c Inr show ?thesis
      by (auto simp: dispatch_def Let_def audit_record_def)
  qed
qed

lemma demo_provider_call:
  "provider_call demo_penv (tool_request (Some ''alpha'') ''sum'') Map.empty (Some plain_user)
      (demo_manager [(''alpha'', demo_server ''alpha'' [ok_response (JStr ''7'')])])
     = Inr (JObj [(''jsonrpc'', JStr ''2.0''), (''id'', JStr ''7''),
               (''result'', JObj [(''content'', JArr [])])])"
  by (simp add: provider_call_def resolve_target_def tool_request_def
      principal_user_id_def plain_user_def demo_penv_def params_to_send_def
      servers_needing_user_id_def select_user_token_def
      route_request_def demo_manager_def request_data_def
      demo_server_def demo_child_def demo_config_def prepare_request_def
      send_request_def max_attempts_def readline_def ok_response_def normalize_id_def
      py_str_def eval_nat_numeral)

subsection \<open>Dictionary updates\<close>

lemma dict_get_dict_set [simp]:
  "dict_get (dict_set k v d) k' = (if k' = k then Some v else dict_get d k')"
  by (simp add: update_conv')



subsection \<open>The auto-detection loop\<close>




lemma params_to_send_server_field [simp]:
  "params_to_send headers (mcp_request\<lparr>server := t\<rparr>) target_server uid
     = params_to_send headers mcp_request target_server uid"
  by (simp add: params_to_send_def Let_def cong: option.case_cong sum.case_cong if_cong)

lemma request_data_server_field [simp]:
  "request_data (mcp_request\<lparr>server := t\<rparr>) p = request_data mcp_request p"
  by (simp add: request_data_def)

lemma audit_record_server_field [simp]:
  "audit_record (mcp_request\<lparr>server := t\<rparr>) target_server ui res err ok
     = audit_record mcp_request target_server ui res err ok"
  by (simp add: audit_record_def)

lemma error_response_server_field [simp]:
  "error_response (mcp_request\<lparr>server := t\<rparr>) target_server e
     = error_response mcp_request target_server e"
  by (simp add: error_response_def)

lemma dispatch_server_field [simp]:
  "dispatch penv (mcp_request\<lparr>server := t\<rparr>) headers ui target_server m
     = dispatch penv mcp_request headers ui target_server m"
  by (simp add: dispatch_def Let_def
      cong: option.case_cong sum.case_cong prod.case_cong py_error.case_cong json.case_cong if_cong)



subsection \<open>What the auto-detection loop writes\<close>

lemma written_Nil [simp]: "written (m\<lparr>servers := []\<rparr>) = []"
  by (simp add: written_def)







subsection \<open>From the handler to the child\<close>

lemma dispatch_manager:
  assumes "params_to_send headers mcp_request n (principal_user_id ui) = Inr p"
  shows "fst (snd (dispatch penv mcp_request headers ui n m))
     = snd (route_request n (request_data mcp_request p) (select_user_token penv headers n ui m) m)"
  using assms
  by (simp add: dispatch_def Let_def case_prod_beta split: sum.splits json.splits)


lemma route_request_written:
  assumes "dict_get (servers m) n = Some srv" "status srv = RUNNING"
    and "process srv = Some c" "alive c"
    and "prepare_request request ut = Inr request'"
  shows "route_request n request ut m =
     (fst (read_loop max_attempts (dict_get request' ''id'') (stdout c)),
      m\<lparr>servers := dict_set n
         (srv\<lparr>process := Some (c\<lparr>stdin := stdin c @ [JObj request'],
              stdout := snd (read_loop max_attempts (dict_get request' ''id'') (stdout c))\<rparr>)\<rparr>)
         (servers m)\<rparr>)"
  using assms by (simp add: route_request_def send_request_running)

lemma proxy_dispatched:
  assumes "resolve_target (uuid4_hex8 penv) mcp_request m = (Some n, m1)" "n \<noteq> []"
    and "admin_gate n ui = None"
  shows "proxy_mcp_request penv mcp_request headers ui (Some m)
     = (fst (dispatch penv mcp_request headers ui n m1),
        Some (fst (snd (dispatch penv mcp_request headers ui n m1))),
        snd (snd (dispatch penv mcp_request headers ui n m1)))"
  using assms by (cases n) (simp_all add: proxy_mcp_request_def case_prod_beta)





subsection \<open>Token injection\<close>

lemma inject_user_token_exact:
  assumes "injectable request"
  shows "inject_user_token t request = Inr (with_token t request)"
proof (cases "dict_get request ''params''")
  case None
  then show ?thesis
    by (simp add: inject_user_token_def with_token_def object_at_def)
next
  case (Some pv)
  with assms obtain ps where ps: "pv = JObj ps"
    and args: "absent_null_or_object (dict_get ps ''arguments'')"
    and meta: "absent_null_or_object (json_path (JObj ps) [''arguments'', ''meta''])"
    by (cases pv) (auto simp: injectable_def)
  show ?thesis
  proof (cases "\<exists>as. dict_get ps ''arguments'' = Some (JObj as)")
    case False
    with args have "dict_get ps ''arguments'' = None \<or> dict_get ps ''arguments'' = Some JNull"
      by (auto simp: absent_null_or_object_def split: option.splits json.splits)
    with Some ps show ?thesis
      by (auto simp: inject_user_token_def with_token_def object_at_def)
  next
    case True
    then obtain as where as: "dict_get ps ''arguments'' = Some (JObj as)" by blast
    with meta have m: "absent_null_or_object (dict_get as ''meta'')"
      by (simp split: option.splits)
    show ?thesis
    proof (cases "\<exists>ms. dict_get as ''meta'' = Some (JObj ms)")
      case False
      with m have "dict_get as ''meta'' = None \<or> dict_get as ''meta'' = Some JNull"
        by (auto simp: absent_null_or_object_def split: option.splits json.splits)
      with Some ps as show ?thesis
        by (auto simp: inject_user_token_def with_token_def object_at_def)
    next
      case True
      then obtain ms where "dict_get as ''meta'' = Some (JObj ms)" by blast
      with Some ps as show ?thesis
        by (auto simp: inject_user_token_def with_token_def object_at_def)
    qed
  qed
qed

lemma with_token_paths:
  assumes "injectable request"
  shows "json_path (JObj (with_token t request))
           [''params'', ''arguments'', ''meta'', ''userAccessToken''] = Some (JStr t)"
    and "k \<noteq> ''userAccessToken'' \<Longrightarrow>
         json_path (JObj (with_token t request)) [''params'', ''arguments'', ''meta'', k]
           = json_path (JObj request) [''params'', ''arguments'', ''meta'', k]"
    and "k \<noteq> ''meta'' \<Longrightarrow>
         json_path (JObj (with_token t request)) [''params'', ''arguments'', k]
           = json_path (JObj request) [''params'', ''arguments'', k]"
    and "k \<noteq> ''arguments'' \<Longrightarrow>
         json_path (JObj (with_token t request)) [''params'', k]
           = json_path (JObj request) [''params'', k]"
    and "k \<noteq> ''params'' \<Longrightarrow> dict_get (with_token t request) k = dict_get request k"
  using assms
  by (auto simp: with_token_def object_at_def injectable_def absent_null_or_object_def
      split: option.splits json.splits)

lemma sent_to_dict_set:
  "sent_to (m\<lparr>servers := dict_set n srv (servers m)\<rparr>) n
     = (case process srv of None \<Rightarrow> [] | Some c \<Rightarrow> stdin c)"
  by (simp add: sent_to_def)

lemma route_request_sent:
  assumes "dict_get (servers m) n = Some srv" "status srv = RUNNING"
    and "process srv = Some c" "alive c"
    and "prepare_request request ut = Inr request'"
  shows "sent_to (snd (route_request n request ut m)) n = stdin c @ [JObj request']"
  using route_request_written [OF assms] by (simp add: sent_to_dict_set)

lemma id_token_or_nonempty: "tok \<noteq> [] \<Longrightarrow> id_token_or headers tok \<noteq> []"
  by (simp add: id_token_or_def split: option.splits list.splits)

lemma usable_bearer_nonempty: "usable_bearer ui = Some tok \<Longrightarrow> tok \<noteq> []"
  by (auto simp: usable_bearer_def split: option.splits list.splits if_splits)

lemma select_user_token_usable:
  assumes "dict_get (servers m) n = Some srv" "supports_obo (config srv)"
    and "ENABLE_AUTH penv" "\<not> shared_sp_mode penv" "usable_bearer ui = Some tok"
  shows "select_user_token penv headers n ui m = Some (id_token_or headers tok)"
  using assms
  by (auto simp: select_user_token_def shared_sp_mode_def usable_bearer_def id_token_or_def
      header_truthy_def Let_def split: option.splits list.splits if_splits)

lemma select_user_token_unusable:
  assumes "dict_get (servers m) n = Some srv"
    and "\<not> supports_obo (config srv) \<or> \<not> ENABLE_AUTH penv \<or> shared_sp_mode penv
         \<or> usable_bearer ui = None"
  shows "select_user_token penv headers n ui m = None"
  using assms
  by (auto simp: select_user_token_def shared_sp_mode_def usable_bearer_def
      header_truthy_def Let_def split: option.splits list.splits if_splits)

lemma call_user_token_usable:
  assumes "usable_bearer ui = Some tok"
  shows "call_user_token headers n ui = Some (call_token headers n tok)"
  using assms
  by (auto simp: call_user_token_def call_token_def usable_bearer_def id_token_or_def
      header_truthy_def split: option.splits list.splits if_splits)

lemma call_user_token_unusable:
  assumes "usable_bearer ui = None"
  shows "call_user_token headers n ui = None"
  using assms
  by (auto simp: call_user_token_def usable_bearer_def header_truthy_def
      split: option.splits list.splits if_splits)

lemma call_direct_manager:
  assumes "admin_gate n ui = None"
  shows "fst (snd (call_direct n tool_name args headers ui (Some m)))
     = Some (snd (route_request n (call_request_data tool_name args)
                    (call_user_token headers n ui) m))"
  using assms
  by (simp add: call_direct_def call_request_data_def case_prod_beta split: sum.splits)

lemma proxy_manager:
  assumes "resolve_target (uuid4_hex8 penv) mcp_request m = (Some n, m1)" "n \<noteq> []"
    and "admin_gate n ui = None"
    and "params_to_send headers mcp_request n (principal_user_id ui) = Inr p"
  shows "fst (snd (proxy_mcp_request penv mcp_request headers ui (Some m)))
     = Some (snd (route_request n (request_data mcp_request p)
                    (select_user_token penv headers n ui m1) m1))"
  using proxy_dispatched [OF assms(1-3), of headers] dispatch_manager [OF assms(4), of penv m1]
  by simp

section \<open>The claims\<close>

subsection \<open>C1: admin-only providers in the aggregated catalog\<close>

text \<open>
  C1 (as stated, refuted). The claim says that for a non-admin principal every provider of
  the admin-only set is denied, whatever the explicit platform policy. Here a non-admin
  principal in group \<open>g1\<close>, for which the platform API returns an \<open>allow\<close> entry for
  \<open>awp_admin\<close>, is granted access, and the tools of \<open>awp_admin\<close> stay in the catalog.
\<close>

theorem C1_counterexample:
  "check_server_access ''awp_admin'' [''g1'']
     (fetch_user_mcp_access_policies
        g1_policy_api
        [''g1'']) False
   \<and> list_all_tools_filtered
        g1_policy_api
        [(''awp_admin'', [''admin_tool'']), (''awp_web'', [''search''])] [''g1''] False
      = [(''awp_admin'', [''admin_tool'']), (''awp_web'', [''search''])]"
  by (simp add: check_server_access_def fetch_user_mcp_access_policies_def
      list_all_tools_filtered_def filter_tools_def admin_servers_def g1_policy_api_def)

text \<open>
  C1 (amended). The explicit policy map is consulted before the admin-only rule. For a
  non-admin principal and a provider of the admin-only set, the decision is Deny when the
  policy map has no entry for the provider, and otherwise it is Allow exactly when the
  entry is \<open>allow\<close>; the catalog filter drops the provider's tools exactly when the
  decision is Deny.
\<close>

theorem C1_admin_only_after_explicit_policy:
  assumes "server_name \<in> set admin_servers"
  shows "check_server_access server_name user_groups access_policies False
           = (dict_get access_policies server_name = Some ''allow'')
       \<and> ((server_name, tools) \<in> set (filter_tools all_tools user_groups access_policies False)
           \<longleftrightarrow> (server_name, tools) \<in> set all_tools
                \<and> dict_get access_policies server_name = Some ''allow'')"
  using assms
  by (auto simp: check_server_access_def filter_tools_def split: option.splits)

theorem C1_admin_only_after_explicit_policy_witness:
  "''awp_kubernetes'' \<in> set admin_servers
   \<and> \<not> check_server_access ''awp_kubernetes'' [''g1''] [(''awp_web'', ''allow'')] False
   \<and> (''awp_kubernetes'', [''pods'']) \<notin> set (filter_tools
         [(''awp_kubernetes'', [''pods'']), (''awp_web'', [''search''])]
         [''g1''] [(''awp_web'', ''allow'')] False)"
  using C1_admin_only_after_explicit_policy [of "''awp_kubernetes''" "[''g1'']"
      "[(''awp_web'', ''allow'')]" "[''pods'']"
      "[(''awp_kubernetes'', [''pods'']), (''awp_web'', [''search''])]"]
  by (simp add: admin_servers_def)

subsection \<open>C2: a user API key whose validation fails\<close>




subsection \<open>C3: audit records of tool calls\<close>

text \<open>
  C3 (as stated, refuted). A non-admin principal with a user id calls \<open>POST /mcp\<close> for
  \<open>awp_admin\<close>: the request is denied with 403 and no audit record is emitted. The same
  principal calls \<open>POST /call\<close> for a running provider: the call succeeds and no audit
  record is emitted. And when the provider answers \<open>POST /mcp\<close> with a \<open>result\<close> that is
  not an object (here the string \<open>ok\<close>), two records are emitted for the one call: the
  success record, then, the response model having rejected the value, a failure record.
\<close>

theorem C3_counterexample:
  "proxy_mcp_request demo_penv (tool_request (Some ''awp_admin'') ''noop'') no_headers
       (Some plain_user) (Some (demo_manager [(''awp_admin'', demo_server ''awp_admin'' [])]))
     = (Inl (HTTPException 403
          (''Access denied. Admin privileges required to access '' @ quoted ''awp_admin''
             @ '' server.'')),
        Some (demo_manager [(''awp_admin'', demo_server ''awp_admin'' [])]), [])
   \<and> fst (call_direct ''alpha'' ''sum'' [] no_headers (Some plain_user)
        (Some (demo_manager [(''alpha'', demo_server ''alpha'' [ok_response (JInt 1)])])))
     = Inr [(''server'', JStr ''alpha''), (''tool'', JStr ''sum''),
            (''result'', JObj [(''jsonrpc'', JStr ''2.0''), (''id'', JInt 1),
               (''result'', JObj [(''content'', JArr [])])])]
   \<and> snd (snd (call_direct ''alpha'' ''sum'' [] no_headers (Some plain_user)
        (Some (demo_manager [(''alpha'', demo_server ''alpha'' [ok_response (JInt 1)])])))) = []
   \<and> map log_success (snd (snd
        (proxy_mcp_request demo_penv (tool_request (Some ''alpha'') ''sum'') no_headers
           (Some plain_user)
           (Some (demo_manager [(''alpha'', demo_server ''alpha''
              [Doc (JObj [(''jsonrpc'', JStr ''2.0''), (''id'', JStr ''7''),
                          (''result'', JStr ''ok'')])])])))))
     = [True, False]"
proof -
  have rejected_and_call:
    "proxy_mcp_request demo_penv (tool_request (Some ''awp_admin'') ''noop'') no_headers
         (Some plain_user) (Some (demo_manager [(''awp_admin'', demo_server ''awp_admin'' [])]))
       = (Inl (HTTPException 403
            (''Access denied. Admin privileges required to access '' @ quoted ''awp_admin''
               @ '' server.'')),
          Some (demo_manager [(''awp_admin'', demo_server ''awp_admin'' [])]), [])
     \<and> fst (call_direct ''alpha'' ''sum'' [] no_headers (Some plain_user)
          (Some (demo_manager [(''alpha'', demo_server ''alpha'' [ok_response (JInt 1)])])))
       = Inr [(''server'', JStr ''alpha''), (''tool'', JStr ''sum''),
              (''result'', JObj [(''jsonrpc'', JStr ''2.0''), (''id'', JInt 1),
                 (''result'', JObj [(''content'', JArr [])])])]
     \<and> snd (snd (call_direct ''alpha'' ''sum'' [] no_headers (Some plain_user)
          (Some (demo_manager [(''alpha'', demo_server ''alpha'' [ok_response (JInt 1)])])))) = []"
    by (simp add: no_headers_def proxy_mcp_request_def resolve_target_def tool_request_def
        admin_gate_def gate_admin_servers_def principal_is_admin_def plain_user_def demo_penv_def
        call_direct_def call_user_token_def header_truthy_def route_request_def demo_manager_def
        demo_server_def demo_child_def demo_config_def prepare_request_def inject_user_token_def
        send_request_def max_attempts_def readline_def ok_response_def normalize_id_def
        py_str_def str_int_def digit_char_def eval_nat_numeral lower_def lower_char_def)
  have two_records:
    "map log_success (snd (snd
        (proxy_mcp_request demo_penv (tool_request (Some ''alpha'') ''sum'') no_headers
           (Some plain_user)
           (Some (demo_manager [(''alpha'', demo_server ''alpha''
              [Doc (JObj [(''jsonrpc'', JStr ''2.0''), (''id'', JStr ''7''),
                          (''result'', JStr ''ok'')])])])))))
     = [True, False]"
    by code_simp
  from rejected_and_call two_records show ?thesis
    by blast
qed

text \<open>
  C3 (amended). \<open>POST /call\<close> never emits an audit record. \<open>POST /mcp\<close> (and
  \<open>POST /mcp/tool\<close>, which builds a request and calls it) emits none when the request is
  rejected before the provider call (400: no target provider; 403: admin gate) or when
  the principal has no user id. For a request that reaches the provider call, from a
  principal with a user id, exactly one record is emitted: a success record when
  \<open>route_request\<close> returns a response (whose \<open>result\<close> and \<open>error\<close> are objects or
  null), also when that response carries a JSON-RPC error, and a failure record when the
  call raises.
\<close>

theorem C3_audit_records:
  "audits_of (call_direct server_name tool_name args headers ui mcp_manager) = []
   \<and> (\<not> reaches_dispatch penv mcp_request ui m \<or> \<not> py_truthy (principal_user_id ui) \<longrightarrow>
        audits_of (proxy_mcp_request penv mcp_request headers ui (Some m)) = [])
   \<and> (reaches_dispatch penv mcp_request ui m \<and> py_truthy (principal_user_id ui)
        \<and> (\<forall>what. provider_call penv mcp_request headers ui m \<noteq> Inl (Unmodelled what))
        \<and> (\<forall>response. provider_call penv mcp_request headers ui m = Inr response
              \<longrightarrow> well_formed_response response) \<longrightarrow>
        (\<exists>rec. audits_of (proxy_mcp_request penv mcp_request headers ui (Some m)) = [rec]
           \<and> (log_success rec
                \<longleftrightarrow> (\<exists>response. provider_call penv mcp_request headers ui m = Inr response))))"
proof (intro conjI impI)
  show "audits_of (call_direct server_name tool_name args headers ui mcp_manager) = []"
    by (rule audits_call_direct)
next
  assume "\<not> reaches_dispatch penv mcp_request ui m \<or> \<not> py_truthy (principal_user_id ui)"
  then show "audits_of (proxy_mcp_request penv mcp_request headers ui (Some m)) = []"
    using audits_not_dispatched audits_no_user_id by blast
next
  assume a: "reaches_dispatch penv mcp_request ui m \<and> py_truthy (principal_user_id ui)
        \<and> (\<forall>what. provider_call penv mcp_request headers ui m \<noteq> Inl (Unmodelled what))
        \<and> (\<forall>response. provider_call penv mcp_request headers ui m = Inr response
              \<longrightarrow> well_formed_response response)"
  then obtain c cs m1 where res: "resolve_target (uuid4_hex8 penv) mcp_request m = (Some (c # cs), m1)"
    and gate: "admin_gate (c # cs) ui = None"
    by (auto simp: reaches_dispatch_def split: prod.splits option.splits list.splits)
  let ?call = "provider_call penv mcp_request headers ui m"
  have call: "?call = (case params_to_send headers mcp_request (c # cs) (principal_user_id ui) of
             Inl e \<Rightarrow> Inl e
           | Inr p \<Rightarrow>
               fst (route_request (c # cs) (request_data mcp_request p)
                      (select_user_token penv headers (c # cs) ui m1) m1))"
    using res by (simp add: provider_call_def)
  from a have uid: "py_truthy (principal_user_id ui)" by simp
  from a have modelled: "\<forall>what. ?call \<noteq> Inl (Unmodelled what)" by simp
  from a have wf: "\<forall>response. ?call = Inr response \<longrightarrow> well_formed_response response" by simp
  from dispatch_one_record [OF uid call modelled wf]
  obtain rec where "snd (snd (dispatch penv mcp_request headers ui (c # cs) m1)) = [rec]"
    "log_success rec \<longleftrightarrow> (\<exists>response. ?call = Inr response)" by blast
  with res gate show "\<exists>rec. audits_of (proxy_mcp_request penv mcp_request headers ui (Some m)) = [rec]
           \<and> (log_success rec \<longleftrightarrow> (\<exists>response. ?call = Inr response))"
    by (auto simp: proxy_mcp_request_def audits_of_def split: prod.splits)
qed

theorem C3_audit_records_witness:
  "\<exists>rec. audits_of (proxy_mcp_request demo_penv (tool_request (Some ''alpha'') ''sum'') Map.empty
       (Some plain_user)
       (Some (demo_manager [(''alpha'', demo_server ''alpha'' [ok_response (JStr ''7'')])]))) = [rec]
     \<and> log_success rec"
proof -
  let ?m = "demo_manager [(''alpha'', demo_server ''alpha'' [ok_response (JStr ''7'')])]"
  let ?req = "tool_request (Some ''alpha'') ''sum''"
  have reach: "reaches_dispatch demo_penv ?req (Some plain_user) ?m"
    by (simp add: reaches_dispatch_def resolve_target_def tool_request_def admin_gate_def
        gate_admin_servers_def)
  have uid: "py_truthy (principal_user_id (Some plain_user))"
    by (simp add: principal_user_id_def plain_user_def)
  have wf: "well_formed_response (JObj [(''jsonrpc'', JStr ''2.0''), (''id'', JStr ''7''),
               (''result'', JObj [(''content'', JArr [])])])"
    by (simp add: well_formed_response_def valid_optional_dict_def)
  from C3_audit_records [of "''alpha''" "''sum''" "[]" Map.empty "Some plain_user" None
      demo_penv ?req ?m] reach uid wf
  show ?thesis
    by (simp add: demo_provider_call)
qed

subsection \<open>C4: the token injected for an OBO provider\<close>

text \<open>
  C4 (as stated, refuted). A principal with bearer token \<open>user-access-token\<close> calls a tool
  of \<open>awp_azure\<close>, a provider flagged \<open>supports_obo\<close>. The object written to the child
  carries at \<open>params.arguments.meta.userAccessToken\<close> the caller's own
  \<open>X-Azure-ID-Token\<close> header when the request has one, and otherwise the caller's own
  bearer token: the caller's original token, not the result of an exchange. And a request
  whose \<open>params\<close> is \<open>None\<close> is not repaired: \<open>route_request\<close> raises \<open>TypeError\<close> at
  \<open>'arguments' not in request['params']\<close>.
\<close>

theorem C4_counterexample:
  "map_option written (fst (snd
      (proxy_mcp_request demo_penv (tool_request (Some ''awp_azure'') ''list_groups'')
         id_token_headers (Some plain_user)
         (Some (demo_manager [(''awp_azure'', obo_server ''awp_azure'' [ok_response (JStr ''7'')])])))))
     = Some [(''awp_azure'',
        [JObj [(''jsonrpc'', JStr ''2.0''), (''id'', JStr ''7''), (''method'', JStr ''tools/call''),
           (''params'', JObj [(''name'', JStr ''list_groups''),
              (''arguments'', JObj [(''meta'',
                 JObj [(''userAccessToken'', JStr ''caller-id-token'')])])])]])]
   \<and> map_option written (fst (snd
      (proxy_mcp_request demo_penv (tool_request (Some ''awp_azure'') ''list_groups'')
         no_headers (Some plain_user)
         (Some (demo_manager [(''awp_azure'', obo_server ''awp_azure'' [ok_response (JStr ''7'')])])))))
     = Some [(''awp_azure'',
        [JObj [(''jsonrpc'', JStr ''2.0''), (''id'', JStr ''7''), (''method'', JStr ''tools/call''),
           (''params'', JObj [(''name'', JStr ''list_groups''),
              (''arguments'', JObj [(''meta'',
                 JObj [(''userAccessToken'', JStr ''user-access-token'')])])])]])]
   \<and> token plain_user = Some ''user-access-token''
   \<and> prepare_request
        [(''jsonrpc'', JStr ''2.0''), (''id'', JInt 1), (''method'', JStr ''tools/call''),
         (''params'', JNull)] (Some ''user-access-token'')
     = Inl TypeError"
  by (simp add: no_headers_def id_token_headers_def proxy_mcp_request_def resolve_target_def tool_request_def admin_gate_def
      gate_admin_servers_def dispatch_def principal_user_id_def plain_user_def demo_penv_def
      params_to_send_def servers_needing_user_id_def select_user_token_def header_truthy_def
      getenv_or_def lower_def lower_char_def
      route_request_def demo_manager_def request_data_def obo_server_def
      demo_server_def demo_child_def demo_config_def prepare_request_def inject_user_token_def
      send_request_def max_attempts_def readline_def ok_response_def normalize_id_def
      py_str_def eval_nat_numeral valid_optional_dict_def written_def Let_def)

text \<open>
  C4 (amended). Let a provider be Running with a live child, and let a \<open>tools/call\<close> be
  sent to it whose \<open>arguments\<close> and \<open>meta\<close> are each missing, \<open>None\<close> or an object.

  \<^item> \<open>route_request\<close>, given a non-empty token, writes to the child exactly the request
    with the token at \<open>params.arguments.meta.userAccessToken\<close>; a missing \<open>params\<close> is
    created on the way (a \<open>params\<close> of \<open>None\<close> is not: see the counterexample).
  \<^item> \<open>POST /mcp\<close> (and \<open>POST /mcp/tool\<close>, which calls it), once the target provider is
    resolved and the admin gate passed: if the provider is flagged \<open>supports_obo\<close>,
    \<open>ENABLE_AUTH\<close> is on, shared-SP mode is off and the principal's bearer token is
    usable, the object written is the request as built (\<open>jsonrpc\<close>, \<open>id\<close>, \<open>method\<close>, and
    the \<open>params\<close> left by the user-id injection) with the caller's own token in it,
    unexchanged: the \<open>X-Azure-ID-Token\<close> header if the request has a non-empty one, the
    bearer token otherwise. If the provider is not flagged, \<open>ENABLE_AUTH\<close> is off,
    shared-SP mode is on or there is no usable bearer token, the request is written as
    built, without a token.
  \<^item> \<open>POST /call\<close>, the admin gate passed: with a usable bearer token the request as
    built is written with a token in it, whether or not the provider is flagged and
    whatever \<open>ENABLE_AUTH\<close> says; the token is the \<open>X-Azure-ID-Token\<close> header only for a
    provider whose name contains \<open>aws\<close> or \<open>azure\<close> (and only if the header is there),
    the bearer token otherwise. Without a usable bearer token the request is written as
    built.
  \<^item> The request with the token in it has the token at
    \<open>params.arguments.meta.userAccessToken\<close> and, at each of the four levels, every other
    key as the request had it: nothing is added under a key beginning with an underscore.
\<close>

theorem C4_original_token_injected:
  assumes "dict_get (servers m1) n = Some srv" "status srv = RUNNING"
    and "process srv = Some c" "alive c"
  shows
   "(t \<noteq> [] \<and> dict_get request ''method'' = Some (JStr ''tools/call'') \<and> injectable request
       \<longrightarrow> sent_to (snd (route_request n request (Some t) m1)) n
             = stdin c @ [JObj (with_token t request)])
    \<and> (rpc_method mcp_request = ''tools/call''
        \<and> resolve_target (uuid4_hex8 penv) mcp_request m = (Some n, m1) \<and> n \<noteq> []
        \<and> admin_gate n ui = None
        \<and> params_to_send headers mcp_request n (principal_user_id ui) = Inr p
       \<longrightarrow>
         (supports_obo (config srv) \<and> ENABLE_AUTH penv \<and> \<not> shared_sp_mode penv
            \<and> usable_bearer ui = Some tok \<and> injectable (request_data mcp_request p)
          \<longrightarrow> (\<exists>m2. fst (snd (proxy_mcp_request penv mcp_request headers ui (Some m))) = Some m2
                 \<and> sent_to m2 n
                     = stdin c @ [JObj (with_token (id_token_or headers tok)
                                          (request_data mcp_request p))]))
         \<and> (\<not> supports_obo (config srv) \<or> \<not> ENABLE_AUTH penv \<or> shared_sp_mode penv
              \<or> usable_bearer ui = None
            \<longrightarrow> (\<exists>m2. fst (snd (proxy_mcp_request penv mcp_request headers ui (Some m))) = Some m2
                   \<and> sent_to m2 n = stdin c @ [JObj (request_data mcp_request p)])))
    \<and> (admin_gate n ui = None
       \<longrightarrow>
         (usable_bearer ui = Some tok \<and> injectable (call_request_data tool_name args)
          \<longrightarrow> (\<exists>m2. fst (snd (call_direct n tool_name args headers ui (Some m1))) = Some m2
                 \<and> sent_to m2 n
                     = stdin c @ [JObj (with_token (call_token headers n tok)
                                          (call_request_data tool_name args))]))
         \<and> (usable_bearer ui = None
            \<longrightarrow> (\<exists>m2. fst (snd (call_direct n tool_name args headers ui (Some m1))) = Some m2
                   \<and> sent_to m2 n = stdin c @ [JObj (call_request_data tool_name args)])))
    \<and> (injectable request
       \<longrightarrow> json_path (JObj (with_token t request))
               [''params'', ''arguments'', ''meta'', ''userAccessToken''] = Some (JStr t)
         \<and> (\<forall>k. k \<noteq> ''userAccessToken'' \<longrightarrow>
               json_path (JObj (with_token t request)) [''params'', ''arguments'', ''meta'', k]
                 = json_path (JObj request) [''params'', ''arguments'', ''meta'', k])
         \<and> (\<forall>k. k \<noteq> ''meta'' \<longrightarrow>
               json_path (JObj (with_token t request)) [''params'', ''arguments'', k]
                 = json_path (JObj request) [''params'', ''arguments'', k])
         \<and> (\<forall>k. k \<noteq> ''arguments'' \<longrightarrow>
               json_path (JObj (with_token t request)) [''params'', k]
                 = json_path (JObj request) [''params'', k])
         \<and> (\<forall>k. k \<noteq> ''params'' \<longrightarrow>
               dict_get (with_token t request) k = dict_get request k))"
    (is "(?bare \<longrightarrow> ?A) \<and> (?mcp \<longrightarrow> (?usable \<longrightarrow> ?B) \<and> (?unusable \<longrightarrow> ?C))
         \<and> (?gate \<longrightarrow> (?cusable \<longrightarrow> ?D) \<and> (?cunusable \<longrightarrow> ?E)) \<and> (?inj \<longrightarrow> ?F)")
proof -
  have A: ?A if ?bare
  proof -
    from that have "prepare_request request (Some t) = Inr (with_token t request)"
      by (simp add: prepare_request_def inject_user_token_exact)
    from route_request_sent [OF assms this] show ?thesis .
  qed
  have B: ?B if mcp: ?mcp and us: ?usable
  proof -
    let ?rd = "request_data mcp_request p"
    let ?t = "id_token_or headers tok"
    from us have sel: "select_user_token penv headers n ui m1 = Some ?t"
      by (intro select_user_token_usable [OF assms(1)]) simp_all
    from us have "?t \<noteq> []"
      by (intro id_token_or_nonempty usable_bearer_nonempty [of ui]) simp
    moreover from mcp have "dict_get ?rd ''method'' = Some (JStr ''tools/call'')"
      by (simp add: request_data_def)
    ultimately have "prepare_request ?rd (Some ?t) = Inr (with_token ?t ?rd)"
      using us by (simp add: prepare_request_def inject_user_token_exact)
    from route_request_sent [OF assms this] proxy_manager [of penv mcp_request m n m1 ui headers p]
      mcp sel
    show ?thesis by simp
  qed
  have C: ?C if mcp: ?mcp and un: ?unusable
  proof -
    let ?rd = "request_data mcp_request p"
    from un have sel: "select_user_token penv headers n ui m1 = None"
      by (intro select_user_token_unusable [OF assms(1)])
    have "prepare_request ?rd None = Inr ?rd"
      by (simp add: prepare_request_def)
    from route_request_sent [OF assms this] proxy_manager [of penv mcp_request m n m1 ui headers p]
      mcp sel
    show ?thesis by simp
  qed
  have D: ?D if gate: ?gate and us: ?cusable
  proof -
    let ?rd = "call_request_data tool_name args"
    let ?t = "call_token headers n tok"
    from us have sel: "call_user_token headers n ui = Some ?t"
      by (intro call_user_token_usable) simp
    from us have "tok \<noteq> []"
      by (intro usable_bearer_nonempty [of ui]) simp
    then have "?t \<noteq> []"
      by (simp add: call_token_def id_token_or_nonempty)
    moreover have "dict_get ?rd ''method'' = Some (JStr ''tools/call'')"
      by (simp add: call_request_data_def)
    ultimately have "prepare_request ?rd (Some ?t) = Inr (with_token ?t ?rd)"
      using us by (simp add: prepare_request_def inject_user_token_exact)
    from route_request_sent [OF assms this] call_direct_manager [OF gate, of tool_name args headers m1]
      sel
    show ?thesis by simp
  qed
  have E: ?E if gate: ?gate and un: ?cunusable
  proof -
    let ?rd = "call_request_data tool_name args"
    from un have sel: "call_user_token headers n ui = None"
      by (rule call_user_token_unusable)
    have "prepare_request ?rd None = Inr ?rd"
      by (simp add: prepare_request_def)
    from route_request_sent [OF assms this] call_direct_manager [OF gate, of tool_name args headers m1]
      sel
    show ?thesis by simp
  qed
  have F: ?F if ?inj
    using with_token_paths [OF that, where t = t] by blast
  from A B C D E F show ?thesis by blast
qed

theorem C4_original_token_injected_witness:
  "(\<exists>m2. fst (snd (proxy_mcp_request demo_penv (tool_request (Some ''awp_azure'') ''list_groups'')
                     id_token_headers (Some plain_user) (Some azure_manager))) = Some m2
       \<and> sent_to m2 ''awp_azure''
           = [JObj [(''jsonrpc'', JStr ''2.0''), (''id'', JStr ''7''),
                    (''method'', JStr ''tools/call''),
                    (''params'', JObj [(''name'', JStr ''list_groups''),
                       (''arguments'', token_meta ''caller-id-token'')])]])
   \<and> (\<exists>m2. fst (snd (proxy_mcp_request auth_off_penv
                     (tool_request (Some ''awp_azure'') ''list_groups'')
                     id_token_headers (Some plain_user) (Some azure_manager))) = Some m2
       \<and> sent_to m2 ''awp_azure''
           = [JObj [(''jsonrpc'', JStr ''2.0''), (''id'', JStr ''7''),
                    (''method'', JStr ''tools/call''),
                    (''params'', JObj [(''name'', JStr ''list_groups''),
                       (''arguments'', JObj [])])]])
   \<and> (\<exists>m2. fst (snd (call_direct ''awp_flowise'' ''run_flow'' [] id_token_headers
                     (Some plain_user) (Some flowise_manager))) = Some m2
       \<and> sent_to m2 ''awp_flowise''
           = [JObj [(''jsonrpc'', JStr ''2.0''), (''id'', JInt 1),
                    (''method'', JStr ''tools/call''),
                    (''params'', JObj [(''name'', JStr ''run_flow''),
                       (''arguments'', token_meta ''user-access-token'')])]])
   \<and> sent_to (snd (route_request ''awp_azure'' bare_call (Some ''caller-id-token'')
         azure_manager)) ''awp_azure''
       = [JObj [(''jsonrpc'', JStr ''2.0''), (''id'', JStr ''7''),
                (''method'', JStr ''tools/call''),
                (''params'', JObj [(''arguments'', token_meta ''caller-id-token'')])]]
   \<and> json_path (JObj (with_token ''caller-id-token'' bare_call))
         [''params'', ''arguments'', ''_meta''] = None"
proof -
  let ?req = "tool_request (Some ''awp_azure'') ''list_groups''"
  let ?p = "[(''name'', JStr ''list_groups''), (''arguments'', JObj [])]"
  let ?az = "obo_server ''awp_azure'' [ok_response (JStr ''7'')]"
  let ?caz = "demo_child [ok_response (JStr ''7'')]"
  let ?fl = "obo_server ''awp_flowise'' [ok_response (JInt 1)]"
  let ?cfl = "demo_child [ok_response (JInt 1)]"
  have az: "dict_get (servers azure_manager) ''awp_azure'' = Some ?az" "status ?az = RUNNING"
    "process ?az = Some ?caz" "alive ?caz"
    by (simp_all add: azure_manager_def demo_manager_def obo_server_def demo_server_def
        demo_child_def)
  have fl: "dict_get (servers flowise_manager) ''awp_flowise'' = Some ?fl" "status ?fl = RUNNING"
    "process ?fl = Some ?cfl" "alive ?cfl"
    by (simp_all add: flowise_manager_def demo_manager_def obo_server_def demo_server_def
        demo_child_def)
  have empty: "stdin ?caz = []" "stdin ?cfl = []"
    by (simp_all add: demo_child_def)
  have obo: "supports_obo (config ?az)"
    by (simp add: obo_server_def)
  have meth: "rpc_method ?req = ''tools/call''"
    by (simp add: tool_request_def)
  have res: "resolve_target (uuid4_hex8 penv) ?req azure_manager
      = (Some ''awp_azure'', azure_manager)" for penv
    by (simp add: resolve_target_def tool_request_def)
  have gate: "admin_gate ''awp_azure'' (Some plain_user) = None"
    "admin_gate ''awp_flowise'' (Some plain_user) = None"
    by (simp_all add: admin_gate_def gate_admin_servers_def)
  have ps: "params_to_send id_token_headers ?req ''awp_azure'' (principal_user_id (Some plain_user))
      = Inr ?p"
    by (simp add: params_to_send_def servers_needing_user_id_def tool_request_def)
  have on: "ENABLE_AUTH demo_penv" "\<not> shared_sp_mode demo_penv"
    by (simp_all add: demo_penv_def shared_sp_mode_def getenv_or_def lower_def lower_char_def)
  have off: "\<not> ENABLE_AUTH auth_off_penv"
    by (simp add: auth_off_penv_def demo_penv_def)
  have tok: "usable_bearer (Some plain_user) = Some ''user-access-token''"
    by (simp add: usable_bearer_def plain_user_def)
  have inj: "injectable (request_data ?req ?p)" "injectable (call_request_data ''run_flow'' [])"
    "injectable bare_call"
    by (simp_all add: injectable_def request_data_def call_request_data_def bare_call_def
        absent_null_or_object_def)
  have bm: "dict_get bare_call ''method'' = Some (JStr ''tools/call'')"
    by (simp add: bare_call_def)
  have idt: "id_token_or id_token_headers ''user-access-token'' = ''caller-id-token''"
    by (simp add: id_token_or_def id_token_headers_def)
  have ct: "call_token id_token_headers ''awp_flowise'' ''user-access-token''
      = ''user-access-token''"
    by code_simp
  have w1: "with_token ''caller-id-token'' (request_data ?req ?p)
      = [(''jsonrpc'', JStr ''2.0''), (''id'', JStr ''7''), (''method'', JStr ''tools/call''),
         (''params'', JObj [(''name'', JStr ''list_groups''),
            (''arguments'', token_meta ''caller-id-token'')])]"
    by code_simp
  have w0: "request_data ?req ?p
      = [(''jsonrpc'', JStr ''2.0''), (''id'', JStr ''7''), (''method'', JStr ''tools/call''),
         (''params'', JObj [(''name'', JStr ''list_groups''), (''arguments'', JObj [])])]"
    by code_simp
  have w2: "with_token ''user-access-token'' (call_request_data ''run_flow'' [])
      = [(''jsonrpc'', JStr ''2.0''), (''id'', JInt 1), (''method'', JStr ''tools/call''),
         (''params'', JObj [(''name'', JStr ''run_flow''),
            (''arguments'', token_meta ''user-access-token'')])]"
    by code_simp
  have w3: "with_token ''caller-id-token'' bare_call
      = [(''jsonrpc'', JStr ''2.0''), (''id'', JStr ''7''), (''method'', JStr ''tools/call''),
         (''params'', JObj [(''arguments'', token_meta ''caller-id-token'')])]"
    by code_simp
  have w4: "json_path (JObj bare_call) [''params'', ''arguments'', ''_meta''] = None"
    by code_simp
  note on_azure = C4_original_token_injected [OF az, where mcp_request = ?req and penv = demo_penv
      and m = azure_manager and ui = "Some plain_user" and headers = id_token_headers
      and p = ?p and tok = "''user-access-token''" and t = "''caller-id-token''"
      and request = bare_call]
  from on_azure
  have mcp_on: "\<exists>m2. fst (snd (proxy_mcp_request demo_penv ?req
                     id_token_headers (Some plain_user) (Some azure_manager))) = Some m2
       \<and> sent_to m2 ''awp_azure''
           = [JObj [(''jsonrpc'', JStr ''2.0''), (''id'', JStr ''7''),
                    (''method'', JStr ''tools/call''),
                    (''params'', JObj [(''name'', JStr ''list_groups''),
                       (''arguments'', token_meta ''caller-id-token'')])]]"
    by (simp add: meth res gate ps obo on tok inj idt w1 empty)
  from on_azure
  have bare: "sent_to (snd (route_request ''awp_azure'' bare_call (Some ''caller-id-token'')
         azure_manager)) ''awp_azure''
       = [JObj [(''jsonrpc'', JStr ''2.0''), (''id'', JStr ''7''),
                (''method'', JStr ''tools/call''),
                (''params'', JObj [(''arguments'', token_meta ''caller-id-token'')])]]"
    by (simp add: bm inj w3 empty)
  from on_azure inj(3)
  have "\<forall>k. k \<noteq> ''meta'' \<longrightarrow>
      json_path (JObj (with_token ''caller-id-token'' bare_call)) [''params'', ''arguments'', k]
        = json_path (JObj bare_call) [''params'', ''arguments'', k]"
    by blast
  from this [rule_format, of "''_meta''"] w4
  have under: "json_path (JObj (with_token ''caller-id-token'' bare_call))
         [''params'', ''arguments'', ''_meta''] = None"
    by simp
  from C4_original_token_injected [OF az, where mcp_request = ?req and penv = auth_off_penv and m = azure_manager
      and ui = "Some plain_user" and headers = id_token_headers and p = ?p]
  have mcp_off: "\<exists>m2. fst (snd (proxy_mcp_request auth_off_penv ?req
                     id_token_headers (Some plain_user) (Some azure_manager))) = Some m2
       \<and> sent_to m2 ''awp_azure''
           = [JObj [(''jsonrpc'', JStr ''2.0''), (''id'', JStr ''7''),
                    (''method'', JStr ''tools/call''),
                    (''params'', JObj [(''name'', JStr ''list_groups''),
                       (''arguments'', JObj [])])]]"
    by (simp add: meth res gate ps off w0 empty)
  from C4_original_token_injected [OF fl, where ui = "Some plain_user" and headers = id_token_headers
      and tok = "''user-access-token''" and tool_name = "''run_flow''" and args = "[]"]
  have call: "\<exists>m2. fst (snd (call_direct ''awp_flowise'' ''run_flow'' [] id_token_headers
                     (Some plain_user) (Some flowise_manager))) = Some m2
       \<and> sent_to m2 ''awp_flowise''
           = [JObj [(''jsonrpc'', JStr ''2.0''), (''id'', JInt 1),
                    (''method'', JStr ''tools/call''),
                    (''params'', JObj [(''name'', JStr ''run_flow''),
                       (''arguments'', token_meta ''user-access-token'')])]]"
    by (simp add: gate tok inj ct w2 empty)
  from mcp_on mcp_off call bare under show ?thesis by blast
qed

subsection \<open>C5: tools/call without a provider\<close>



subsection \<open>C6: response correlation by normalized id\<close>

text \<open>
  C6. Whenever \<open>send_request\<close> returns a response to its caller, the response is an object
  whose id equals the request's id after both are normalized to strings (the string
  \<open>"1"\<close> and the integer \<open>1\<close> normalize alike), and every line read before it was a
  stale response: such responses are skipped and never returned.
\<close>

theorem C6_response_id_matches_request:
  assumes "send_request request srv = (Inr r, srv')"
  shows "\<exists>p p' skipped response.
     process srv = Some p \<and> process srv' = Some p'
     \<and> stdout p = map Doc skipped @ Doc r # stdout p'
     \<and> (\<forall>x \<in> set skipped. stale (dict_get request ''id'') x)
     \<and> r = JObj response
     \<and> normalize_id (dict_get response ''id'') = normalize_id (dict_get request ''id'')
     \<and> normalize_id (Some (JStr ''1'')) = normalize_id (Some (JInt 1))"
proof -
  from send_request_returns [OF assms] obtain p rest where
    p: "process srv = Some p"
    and loop: "read_loop max_attempts (dict_get request ''id'') (stdout p) = (Inr r, rest)"
    and srv': "srv' = srv\<lparr>process := Some (p\<lparr>stdin := stdin p @ [JObj request], stdout := rest\<rparr>)\<rparr>"
    by blast
  from read_loop_returns [OF loop] obtain skipped response where
    "stdout p = map Doc skipped @ Doc r # rest"
    "\<forall>x \<in> set skipped. stale (dict_get request ''id'') x"
    "r = JObj response"
    "normalize_id (dict_get response ''id'') = normalize_id (dict_get request ''id'')"
    by blast
  moreover have "normalize_id (Some (JStr ''1'')) = normalize_id (Some (JInt 1))"
    by (simp add: normalize_id_def py_str_def str_int_def digit_char_def)
  ultimately show ?thesis using p srv' by auto
qed

theorem C6_response_id_matches_request_witness:
  "fst (send_request [(''jsonrpc'', JStr ''2.0''), (''id'', JStr ''1''), (''method'', JStr ''tools/list'')]
      (demo_server ''alpha''
         [Doc (JObj [(''id'', JStr ''old''), (''result'', JObj [])]),
          Doc (JObj [(''id'', JInt 1), (''result'', JObj [(''tools'', JArr [])])]),
          Doc (JObj [(''id'', JInt 2)])]))
     = Inr (JObj [(''id'', JInt 1), (''result'', JObj [(''tools'', JArr [])])])
   \<and> (\<exists>p'. process (snd (send_request
        [(''jsonrpc'', JStr ''2.0''), (''id'', JStr ''1''), (''method'', JStr ''tools/list'')]
        (demo_server ''alpha''
         [Doc (JObj [(''id'', JStr ''old''), (''result'', JObj [])]),
          Doc (JObj [(''id'', JInt 1), (''result'', JObj [(''tools'', JArr [])])]),
          Doc (JObj [(''id'', JInt 2)])]))) = Some p' \<and> stdout p' = [Doc (JObj [(''id'', JInt 2)])])"
proof -
  let ?req = "[(''jsonrpc'', JStr ''2.0''), (''id'', JStr ''1''), (''method'', JStr ''tools/list'')]"
  let ?r = "JObj [(''id'', JInt 1), (''result'', JObj [(''tools'', JArr [])])]"
  let ?out = "[Doc (JObj [(''id'', JStr ''old''), (''result'', JObj [])]), Doc ?r, Doc (JObj [(''id'', JInt 2)])]"
  let ?srv' = "(demo_server ''alpha'' ?out)\<lparr>process := Some ((demo_child ?out)
       \<lparr>stdin := [JObj ?req], stdout := [Doc (JObj [(''id'', JInt 2)])]\<rparr>)\<rparr>"
  have h: "send_request ?req (demo_server ''alpha'' ?out) = (Inr ?r, ?srv')"
    by (simp add: send_request_def demo_server_def demo_child_def max_attempts_def
        readline_def normalize_id_def py_str_def str_int_def digit_char_def eval_nat_numeral)
  from C6_response_id_matches_request [OF h] h show ?thesis by simp
qed

subsection \<open>C7: a disabled flag survives a restart\<close>



subsection \<open>C8: the enabled flag and the provider's status\<close>

text \<open>
  C8 (as stated, refuted). A disabled, stopped provider is started by \<open>start_server\<close>, and
  by \<open>POST /servers/alpha/start\<close>: afterwards it is Running with \<open>enabled\<close> still false.
\<close>

theorem C8_counterexample:
  "flag_invariant (demo_manager [(''alpha'', disabled_server ''alpha'')])
   \<and> get_server_status (demo_manager [(''alpha'', disabled_server ''alpha'')])
       = [(''alpha'', JObj [(''status'', JStr ''stopped''), (''enabled'', JBool False),
            (''last_error'', JNull), (''transport'', JStr ''stdio''), (''pid'', JNull)])]
   \<and> get_server_status
        (snd (start_server spawn_ok ''alpha'' (demo_manager [(''alpha'', disabled_server ''alpha'')])))
       = [(''alpha'', JObj [(''status'', JStr ''running''), (''enabled'', JBool False),
            (''last_error'', JNull), (''transport'', JStr ''stdio''), (''pid'', JInt 100)])]
   \<and> map_option get_server_status
        (snd (http_start_server spawn_ok ''alpha''
           (Some (demo_manager [(''alpha'', disabled_server ''alpha'')]))))
       = Some [(''alpha'', JObj [(''status'', JStr ''running''), (''enabled'', JBool False),
            (''last_error'', JNull), (''transport'', JStr ''stdio''), (''pid'', JInt 100)])]
   \<and> \<not> flag_invariant
        (snd (start_server spawn_ok ''alpha'' (demo_manager [(''alpha'', disabled_server ''alpha'')])))"
  by (simp add: flag_invariant_def flag_respected_def demo_manager_def disabled_server_def
      demo_config_def new_server_def get_server_status_def start_server_def http_start_server_def
      start_def spawn_ok_def send_request_def init_request_def max_attempts_def readline_def
      normalize_id_def py_str_def str_int_def digit_char_def eval_nat_numeral)

text \<open>
  C8 (amended). The invariant "a disabled provider is neither Starting nor Running" is
  preserved by \<open>start_all\<close>, \<open>stop_all\<close>, \<open>stop_server\<close>, \<open>remove_server\<close>,
  \<open>add_server\<close>, \<open>route_request\<close>, by \<open>set_server_enabled\<close> on a settled provider, and
  by \<open>start_server\<close> and \<open>restart_server\<close> on an enabled provider only: these two do
  not consult the flag.
\<close>

theorem C8_enabled_flag_invariant_preserved:
  assumes "flag_invariant m" "respects_flag oper m"
  shows "flag_invariant (apply_operation spawn oper m)"
  using assms
  by (cases oper)
    (simp_all add: flag_invariant_start_all flag_invariant_stop_all flag_invariant_start_server
      flag_invariant_stop_server flag_invariant_restart_server flag_invariant_remove_server
      flag_invariant_add_server flag_invariant_set_server_enabled flag_invariant_route_request
      del: respects_flag.simps)

theorem C8_enabled_flag_invariant_preserved_witness:
  "flag_invariant (demo_manager [(''alpha'', disabled_server ''alpha''), (''beta'', demo_server ''beta'' [])])
   \<and> respects_flag StartAll
        (demo_manager [(''alpha'', disabled_server ''alpha''), (''beta'', demo_server ''beta'' [])])
   \<and> respects_flag (SetServerEnabled ''beta'' False)
        (demo_manager [(''alpha'', disabled_server ''alpha''), (''beta'', demo_server ''beta'' [])])
   \<and> flag_invariant (apply_operation spawn_ok StartAll
        (demo_manager [(''alpha'', disabled_server ''alpha''), (''beta'', demo_server ''beta'' [])]))
   \<and> flag_invariant (apply_operation spawn_ok (SetServerEnabled ''beta'' False)
        (demo_manager [(''alpha'', disabled_server ''alpha''), (''beta'', demo_server ''beta'' [])]))"
proof -
  let ?m = "demo_manager [(''alpha'', disabled_server ''alpha''), (''beta'', demo_server ''beta'' [])]"
  have inv: "flag_invariant ?m"
    by (simp add: flag_invariant_def flag_respected_def demo_manager_def disabled_server_def
        demo_server_def demo_config_def new_server_def)
  have c1: "respects_flag StartAll ?m" by simp
  have c2: "respects_flag (SetServerEnabled ''beta'' False) ?m"
    by (simp add: demo_manager_def demo_server_def demo_child_def settled_def)
  from C8_enabled_flag_invariant_preserved [OF inv c1, of spawn_ok]
    C8_enabled_flag_invariant_preserved [OF inv c2, of spawn_ok] inv c1 c2
  show ?thesis by simp
qed

subsection \<open>C9: a dynamic add with a duplicate name\<close>

text \<open>
  C9. When the name of the submitted configuration, after the container form has been
  normalized, is the name of a provider of the registry, \<open>add_server\<close> raises
  \<open>ValueError\<close> and leaves the manager as it was, so the existing provider keeps its
  configuration, status and child; with a usable name and command the error is the
  "already exists" one.
\<close>

theorem C9_duplicate_add_rejected:
  assumes "normalize_config cfg0 = Inr cfg"
    and "dict_get cfg ''name'' = Some (JStr n)"
    and "dict_has (servers m) n"
  shows "snd (add_server spawn cfg0 m) = m
     \<and> (\<exists>msg. fst (add_server spawn cfg0 m) = Inl (ValueError msg))
     \<and> (n \<noteq> [] \<and> py_truthy (get_or cfg ''command'' JNull) \<longrightarrow>
          fst (add_server spawn cfg0 m) =
            Inl (ValueError (''Server '' @ quoted n
                   @ '' already exists. Use restart or remove first.'')))"
  using assms by (auto simp: add_server_def get_or_def)

theorem C9_duplicate_add_rejected_witness:
  "add_server spawn_ok [(''name'', JStr ''alpha''), (''command'', JStr ''npx''),
        (''args'', JArr [JStr ''-y'', JStr ''pkg''])]
      (demo_manager [(''alpha'', demo_server ''alpha'' [])])
     = (Inl (ValueError (''Server '' @ quoted ''alpha''
                   @ '' already exists. Use restart or remove first.'')),
        demo_manager [(''alpha'', demo_server ''alpha'' [])])
   \<and> add_server spawn_ok
        [(''mcpServers'', JObj [(''alpha'', JObj [(''command'', JStr ''npx'')])])]
      (demo_manager [(''alpha'', demo_server ''alpha'' [])])
     = (Inl (ValueError (''Server '' @ quoted ''alpha''
                   @ '' already exists. Use restart or remove first.'')),
        demo_manager [(''alpha'', demo_server ''alpha'' [])])"
proof -
  let ?m = "demo_manager [(''alpha'', demo_server ''alpha'' [])]"
  let ?flat = "[(''name'', JStr ''alpha''), (''command'', JStr ''npx''),
        (''args'', JArr [JStr ''-y'', JStr ''pkg''])]"
  let ?boxed = "[(''mcpServers'', JObj [(''alpha'', JObj [(''command'', JStr ''npx'')])])]"
  have n1: "normalize_config ?flat = Inr ?flat"
    by (simp add: normalize_config_def)
  have n2: "normalize_config ?boxed = Inr [(''name'', JStr ''alpha''), (''command'', JStr ''npx'')]"
    by (simp add: normalize_config_def)
  have h: "dict_has (servers ?m) ''alpha''"
    by (simp add: demo_manager_def)
  from C9_duplicate_add_rejected [OF n1 _ h, of spawn_ok]
       C9_duplicate_add_rejected [OF n2 _ h, of spawn_ok]
  show ?thesis
    by (simp add: get_or_def prod_eq_iff)
qed

subsection \<open>C10: the read loop of \<open>send_request\<close> is bounded\<close>

text \<open>
  C10. A call of \<open>send_request\<close> consumes at most 10 lines of the child's output. With the
  provider running: a blank (empty or whitespace-only) line, or the end of the stream,
  met after fewer than 10 stale responses raises \<open>RuntimeError\<close> at once, and 10 stale
  responses in a row raise \<open>RuntimeError\<close> with the 11th line left unread.
\<close>

theorem C10_send_request_read_loop_bounded:
  assumes "process srv = Some p"
  shows "(\<exists>p' consumed. process (snd (send_request request srv)) = Some p'
            \<and> stdout p = consumed @ stdout p' \<and> length consumed \<le> 10)
     \<and> (status srv = RUNNING \<and> alive p
          \<and> (\<forall>x \<in> set skipped. stale (dict_get request ''id'') x) \<longrightarrow>
         (length skipped < 10 \<and> strip s = [] \<and> stdout p = map Doc skipped @ Raw s # rest \<longrightarrow>
            send_request request srv =
              (Inl (RuntimeError ''Empty response from MCP server''),
               srv\<lparr>process := Some (p\<lparr>stdin := stdin p @ [JObj request], stdout := rest\<rparr>)\<rparr>))
       \<and> (length skipped < 10 \<and> stdout p = map Doc skipped \<longrightarrow>
            send_request request srv =
              (Inl (RuntimeError ''Empty response from MCP server''),
               srv\<lparr>process := Some (p\<lparr>stdin := stdin p @ [JObj request], stdout := []\<rparr>)\<rparr>))
       \<and> (length skipped = 10 \<and> stdout p = map Doc skipped @ rest \<longrightarrow>
            send_request request srv =
              (Inl (RuntimeError ''Failed to get matching response after 10 attempts''),
               srv\<lparr>process := Some (p\<lparr>stdin := stdin p @ [JObj request], stdout := rest\<rparr>)\<rparr>)))"
proof (intro conjI impI)
  from send_request_consumes [OF assms, of request]
  show "\<exists>p' consumed. process (snd (send_request request srv)) = Some p'
            \<and> stdout p = consumed @ stdout p' \<and> length consumed \<le> 10"
    by (simp add: max_attempts_def)
next
  assume a: "status srv = RUNNING \<and> alive p \<and> (\<forall>x \<in> set skipped. stale (dict_get request ''id'') x)"
    and b: "length skipped < 10 \<and> strip s = [] \<and> stdout p = map Doc skipped @ Raw s # rest"
  then show "send_request request srv =
              (Inl (RuntimeError ''Empty response from MCP server''),
               srv\<lparr>process := Some (p\<lparr>stdin := stdin p @ [JObj request], stdout := rest\<rparr>)\<rparr>)"
    using assms by (simp add: send_request_running read_loop_blank max_attempts_def)
next
  assume a: "status srv = RUNNING \<and> alive p \<and> (\<forall>x \<in> set skipped. stale (dict_get request ''id'') x)"
    and b: "length skipped < 10 \<and> stdout p = map Doc skipped"
  then show "send_request request srv =
              (Inl (RuntimeError ''Empty response from MCP server''),
               srv\<lparr>process := Some (p\<lparr>stdin := stdin p @ [JObj request], stdout := []\<rparr>)\<rparr>)"
    using assms by (simp add: send_request_running read_loop_eof max_attempts_def)
next
  assume a: "status srv = RUNNING \<and> alive p \<and> (\<forall>x \<in> set skipped. stale (dict_get request ''id'') x)"
    and b: "length skipped = 10 \<and> stdout p = map Doc skipped @ rest"
  then show "send_request request srv =
              (Inl (RuntimeError ''Failed to get matching response after 10 attempts''),
               srv\<lparr>process := Some (p\<lparr>stdin := stdin p @ [JObj request], stdout := rest\<rparr>)\<rparr>)"
    using assms by (simp add: send_request_running read_loop_exhausted max_attempts_def)
qed

theorem C10_send_request_read_loop_bounded_witness:
  "fst (send_request list_request (demo_server ''alpha'' [Doc stale_doc, Raw ''  '', Doc stale_doc]))
     = Inl (RuntimeError ''Empty response from MCP server'')
   \<and> send_request list_request (demo_server ''alpha'' (map Doc (replicate 10 stale_doc) @ [Doc stale_doc]))
     = (Inl (RuntimeError ''Failed to get matching response after 10 attempts''),
        (demo_server ''alpha'' (map Doc (replicate 10 stale_doc) @ [Doc stale_doc]))
          \<lparr>process := Some ((demo_child (map Doc (replicate 10 stale_doc) @ [Doc stale_doc]))
              \<lparr>stdin := [JObj list_request], stdout := [Doc stale_doc]\<rparr>)\<rparr>)"
proof -
  have st: "stale (dict_get list_request ''id'') stale_doc"
    by (simp add: stale_def stale_doc_def list_request_def normalize_id_def py_str_def)
  have sp: "strip ''  '' = []"
    by (simp add: strip_def is_space_def)
  have p1: "process (demo_server ''alpha'' [Doc stale_doc, Raw ''  '', Doc stale_doc])
      = Some (demo_child [Doc stale_doc, Raw ''  '', Doc stale_doc])"
    by (simp add: demo_server_def)
  have p2: "process (demo_server ''alpha'' (map Doc (replicate 10 stale_doc) @ [Doc stale_doc]))
      = Some (demo_child (map Doc (replicate 10 stale_doc) @ [Doc stale_doc]))"
    by (simp add: demo_server_def)
  from C10_send_request_read_loop_bounded [OF p1, of list_request "[stale_doc]" "''  ''" "[Doc stale_doc]"] st sp
  have "fst (send_request list_request (demo_server ''alpha'' [Doc stale_doc, Raw ''  '', Doc stale_doc]))
     = Inl (RuntimeError ''Empty response from MCP server'')"
    by (simp add: demo_server_def demo_child_def)
  moreover
  from C10_send_request_read_loop_bounded [OF p2, of list_request "replicate 10 stale_doc" _ "[Doc stale_doc]"] st
  have "send_request list_request (demo_server ''alpha'' (map Doc (replicate 10 stale_doc) @ [Doc stale_doc]))
     = (Inl (RuntimeError ''Failed to get matching response after 10 attempts''),
        (demo_server ''alpha'' (map Doc (replicate 10 stale_doc) @ [Doc stale_doc]))
          \<lparr>process := Some ((demo_child (map Doc (replicate 10 stale_doc) @ [Doc stale_doc]))
              \<lparr>stdin := [JObj list_request], stdout := [Doc stale_doc]\<rparr>)\<rparr>)"
    by (simp add: demo_server_def demo_child_def)
  ultimately show ?thesis by simp
qed

end
